theory Spec2Isabelle
  imports Complex_Main
begin

section \<open>JSON values and HTTP responses\<close>

text \<open>
  The bodies the controllers hand to \<^verbatim>\<open>res.json\<close>. An object is an association list:
  the order of its keys is the order in which the source writes them.
\<close>

datatype json =
    JNull
  | JBool bool
  | JNum int
  | JStr string
  | JArr "json list"
  | JObj "(string \<times> json) list"

text \<open>\<^verbatim>\<open>res.status(n).json(v)\<close>: the status code and the body that were written.\<close>

record response =
  status :: int
  payload :: json

section \<open>Error objects\<close>

text \<open>
  What \<^verbatim>\<open>errorHandler\<close> reads of an error: \<^verbatim>\<open>err.name\<close>, \<^verbatim>\<open>err.message\<close>,
  \<^verbatim>\<open>err.code\<close>, \<^verbatim>\<open>err.statusCode\<close> and \<^verbatim>\<open>err.errors\<close>. A property that is
  \<^verbatim>\<open>undefined\<close> is \<open>None\<close>. \<^verbatim>\<open>err.errors\<close> maps a field name to that field's validation
  error, of which only \<^verbatim>\<open>.message\<close> is read.
\<close>

record js_error =
  name :: string
  message :: "string option"
  code :: "int option"
  statusCode :: "int option"
  errors :: "(string \<times> string) list option"

text \<open>The two shapes of message the source passes to \<^verbatim>\<open>new ErrorResponse(message, status)\<close>:
  a template string, and (in \<^verbatim>\<open>errorHandler\<close>) an array of strings.\<close>

datatype message_arg = Text string | Texts "string list"

text \<open>\<^verbatim>\<open>Array.prototype.join\<close> on strings.\<close>

fun join :: "string \<Rightarrow> string list \<Rightarrow> string" where
  "join sep [] = []"
| "join sep [x] = x"
| "join sep (x # y # ys) = x @ sep @ join sep (y # ys)"

text \<open>JavaScript's conversion of a message to a string: an array becomes its elements
  joined by commas.\<close>

fun to_string :: "message_arg \<Rightarrow> string" where
  "to_string (Text s) = s"
| "to_string (Texts ss) = join '','' ss"

text \<open>
  Modelled from the spec: the Error Value class \<^verbatim>\<open>utils/errorResponse\<close> is not among the
  sources. The spec's Error Value is \<^verbatim>\<open>{message: string, statusCode: integer}\<close>, so the
  constructor keeps the message as a string (an array argument converted as a JavaScript
  \<^verbatim>\<open>Error\<close> does) and the status code it was given; a call with one argument leaves
  \<^verbatim>\<open>statusCode\<close> undefined. It has no \<^verbatim>\<open>code\<close> and no \<^verbatim>\<open>errors\<close>.
\<close>

definition ErrorResponse :: "message_arg \<Rightarrow> int option \<Rightarrow> js_error" where
  "ErrorResponse msg sc =
     \<lparr>name = ''Error'', message = Some (to_string msg), code = None,
      statusCode = sc, errors = None\<rparr>"

text \<open>The \<^verbatim>\<open>TypeError\<close> the runtime throws on a property access on \<^verbatim>\<open>null\<close> or
  \<^verbatim>\<open>undefined\<close>.\<close>

definition TypeError :: "string \<Rightarrow> js_error" where
  "TypeError msg =
     \<lparr>name = ''TypeError'', message = Some msg, code = None,
      statusCode = None, errors = None\<rparr>"

section \<open>The error handler (middleware/error.js)\<close>

text \<open>
  Lines 4 to 26 of \<^verbatim>\<open>errorHandler\<close>: the value of \<^verbatim>\<open>error\<close> when the response is written.
  The three tests are three separate \<^verbatim>\<open>if\<close> statements, not an else-chain, so a later
  match overwrites an earlier one. \<^verbatim>\<open>Object.values(err.errors)\<close> throws when
  \<^verbatim>\<open>err.errors\<close> is undefined: that is \<open>Inl\<close>. The copy \<^verbatim>\<open>{...err}\<close> followed by
  \<^verbatim>\<open>error.message = err.message\<close> has the message and the status code of \<open>err\<close>, which
  is all that is read of it. \<^verbatim>\<open>console.log\<close> is not modelled.
\<close>

definition normalise :: "js_error \<Rightarrow> js_error + js_error" where
  "normalise err =
     (let error = err;
          error = (if name err = ''CastError''
                   then ErrorResponse (Text ''Resource not found'') (Some 404) else error);
          error = (if code err = Some 11000
                   then ErrorResponse (Text ''Duplicate field value entered'') (Some 404)
                   else error)
      in if name err = ''ValidationError''
         then (case errors err of
                 None \<Rightarrow> Inl (TypeError ''Cannot convert undefined or null to object'')
               | Some fs \<Rightarrow> Inr (ErrorResponse (Texts (map snd fs)) (Some 400)))
         else Inr error)"

text \<open>\<^verbatim>\<open>error.statusCode || 500\<close>: undefined and 0 are falsy.\<close>

definition status_or_500 :: "int option \<Rightarrow> int" where
  "status_or_500 sc = (case sc of None \<Rightarrow> 500 | Some n \<Rightarrow> if n = 0 then 500 else n)"

text \<open>\<^verbatim>\<open>error.message || 'Server Error'\<close>: undefined and the empty string are falsy.\<close>

definition message_or_default :: "string option \<Rightarrow> string" where
  "message_or_default m =
     (case m of None \<Rightarrow> ''Server Error'' | Some s \<Rightarrow> if s = [] then ''Server Error'' else s)"

text \<open>Lines 28 to 31: the failure body.\<close>

definition failure :: "js_error \<Rightarrow> response" where
  "failure error =
     \<lparr>status = status_or_500 (statusCode error),
      payload = JObj [(''success'', JBool False),
                      (''error'', JStr (message_or_default (message error)))]\<rparr>"

definition errorHandler :: "js_error \<Rightarrow> js_error + response" where
  "errorHandler err =
     (case normalise err of Inl thrown \<Rightarrow> Inl thrown | Inr error \<Rightarrow> Inr (failure error))"

section \<open>JavaScript numbers\<close>

text \<open>
  A number as the controllers meet it: \<^verbatim>\<open>NaN\<close>, a finite value, or an infinity. A finite
  value is kept as the real number it stands for: the rounding of double precision is not
  modelled, except that a value beyond the largest double overflows to an infinity
  (every value of magnitude \<^verbatim>\<open>2^1024 - 2^970\<close> or more does, the least that rounds up to
  \<^verbatim>\<open>2^1024\<close>).
\<close>

datatype number = NaN | Num real | Infinity | NegInfinity

definition overflow :: real where
  "overflow = 2 ^ 1024 - 2 ^ 970"

definition clip :: "real \<Rightarrow> number" where
  "clip v = (if overflow \<le> v then Infinity else if v \<le> - overflow then NegInfinity else Num v)"

definition negate :: "number \<Rightarrow> number" where
  "negate x = (case x of NaN \<Rightarrow> NaN | Num v \<Rightarrow> Num (- v) | Infinity \<Rightarrow> NegInfinity
               | NegInfinity \<Rightarrow> Infinity)"

text \<open>
  The white space and line terminators that the conversion of a string to a number strips
  from both ends, as the bytes of their UTF-8 encoding (a string is a sequence of bytes):
  TAB, LF, VT, FF, CR, SP, U+00A0, U+1680, U+2000 to U+200A, U+2028, U+2029, U+202F, U+205F,
  U+3000 and U+FEFF.
\<close>

definition blanks :: "string list" where
  "blanks =
     [[CHR 0x09], [CHR 0x0A], [CHR 0x0B], [CHR 0x0C], [CHR 0x0D], [CHR 0x20],
      [CHR 0xC2, CHR 0xA0],
      [CHR 0xE1, CHR 0x9A, CHR 0x80],
      [CHR 0xE2, CHR 0x80, CHR 0x80], [CHR 0xE2, CHR 0x80, CHR 0x81],
      [CHR 0xE2, CHR 0x80, CHR 0x82], [CHR 0xE2, CHR 0x80, CHR 0x83],
      [CHR 0xE2, CHR 0x80, CHR 0x84], [CHR 0xE2, CHR 0x80, CHR 0x85],
      [CHR 0xE2, CHR 0x80, CHR 0x86], [CHR 0xE2, CHR 0x80, CHR 0x87],
      [CHR 0xE2, CHR 0x80, CHR 0x88], [CHR 0xE2, CHR 0x80, CHR 0x89],
      [CHR 0xE2, CHR 0x80, CHR 0x8A],
      [CHR 0xE2, CHR 0x80, CHR 0xA8], [CHR 0xE2, CHR 0x80, CHR 0xA9],
      [CHR 0xE2, CHR 0x80, CHR 0xAF],
      [CHR 0xE2, CHR 0x81, CHR 0x9F],
      [CHR 0xE3, CHR 0x80, CHR 0x80],
      [CHR 0xEF, CHR 0xBB, CHR 0xBF]]"

text \<open>Dropping, from the front of a string, every leading occurrence of one of the given
  sequences.\<close>

function lstrip :: "string list \<Rightarrow> string \<Rightarrow> string" where
  "lstrip ws s =
     (case find (\<lambda>w. w \<noteq> [] \<and> take (length w) s = w) ws of
        None \<Rightarrow> s
      | Some w \<Rightarrow> lstrip ws (drop (length w) s))"
  by pat_completeness auto
termination
proof (relation "measure (\<lambda>(ws, s). length s)")
  show "wf (measure (\<lambda>(ws, s). length s))" by simp
next
  fix ws :: "string list" and s w :: string
  assume "find (\<lambda>w. w \<noteq> [] \<and> take (length w) s = w) ws = Some w"
  then have w: "w \<noteq> []" and t: "take (length w) s = w"
    by (auto simp add: find_Some_iff)
  from w have p: "0 < length w" by simp
  from t have "length (take (length w) s) = length w" by simp
  then have "length w \<le> length s" by simp
  with p have "length s - length w < length s" by arith
  then show "((ws, drop (length w) s), (ws, s)) \<in> measure (\<lambda>(ws, s). length s)"
    by simp
qed

declare lstrip.simps [simp del]

definition trim :: "string \<Rightarrow> string" where
  "trim s = rev (lstrip (map rev blanks) (rev (lstrip blanks s)))"

text \<open>The value of a digit of a numeric literal, upper or lower case, up to radix 16.\<close>

definition digit_value :: "char \<Rightarrow> nat option" where
  "digit_value c =
     (if c \<in> set ''0123456789abcdef''
      then Some (length (takeWhile (\<lambda>d. d \<noteq> c) ''0123456789abcdef''))
      else if c \<in> set ''ABCDEF''
      then Some (10 + length (takeWhile (\<lambda>d. d \<noteq> c) ''ABCDEF''))
      else None)"

text \<open>The value of a string of digits of radix \<open>b\<close>, after the digits already read.\<close>

fun numeral_in :: "nat \<Rightarrow> string \<Rightarrow> nat \<Rightarrow> nat option" where
  "numeral_in b [] acc = Some acc"
| "numeral_in b (c # cs) acc =
     (case digit_value c of
        None \<Rightarrow> None
      | Some d \<Rightarrow> if d < b then numeral_in b cs (b * acc + d) else None)"

text \<open>The prefixes \<^verbatim>\<open>0x\<close>, \<^verbatim>\<open>0o\<close> and \<^verbatim>\<open>0b\<close> of the literals of radix 16, 8 and 2.\<close>

definition radix_prefix :: "string \<Rightarrow> (nat \<times> string) option" where
  "radix_prefix t =
     (case t of
        c0 # c1 # ds \<Rightarrow>
          (if c0 \<noteq> CHR ''0'' then None
           else if c1 \<in> set ''xX'' then Some (16, ds)
           else if c1 \<in> set ''oO'' then Some (8, ds)
           else if c1 \<in> set ''bB'' then Some (2, ds)
           else None)
      | _ \<Rightarrow> None)"

text \<open>The digits of a decimal literal before its exponent: digits with an optional
  fraction, or a fraction alone.\<close>

definition mantissa :: "string \<Rightarrow> real option" where
  "mantissa m =
     (let ip = takeWhile (\<lambda>c. c \<noteq> CHR ''.'') m; rest = dropWhile (\<lambda>c. c \<noteq> CHR ''.'') m
      in case rest of
           [] \<Rightarrow> (if ip = [] then None else map_option real (numeral_in 10 ip 0))
         | _ # fp \<Rightarrow>
             (if ip = [] \<and> fp = [] then None
              else (case (numeral_in 10 ip 0, numeral_in 10 fp 0) of
                      (Some a, Some b) \<Rightarrow> Some (real a + real b / 10 ^ length fp)
                    | _ \<Rightarrow> None)))"

text \<open>The exponent of a decimal literal, after its \<^verbatim>\<open>e\<close>: digits with an optional sign.\<close>

definition exponent :: "string \<Rightarrow> int option" where
  "exponent ex =
     (case ex of
        [] \<Rightarrow> None
      | c # ds \<Rightarrow>
          (if c = CHR ''-'' then (if ds = [] then None
                                  else map_option (\<lambda>n. - int n) (numeral_in 10 ds 0))
           else if c = CHR ''+'' then (if ds = [] then None
                                       else map_option int (numeral_in 10 ds 0))
           else map_option int (numeral_in 10 ex 0)))"

definition scale :: "real \<Rightarrow> int \<Rightarrow> real" where
  "scale v k = (if 0 \<le> k then v * 10 ^ nat k else v / 10 ^ nat (- k))"

definition unsigned_decimal :: "string \<Rightarrow> number" where
  "unsigned_decimal u =
     (if u = ''Infinity'' then Infinity
      else
        (let m = takeWhile (\<lambda>c. c \<notin> set ''eE'') u; x = dropWhile (\<lambda>c. c \<notin> set ''eE'') u
         in case mantissa m of
              None \<Rightarrow> NaN
            | Some v \<Rightarrow>
                (case x of
                   [] \<Rightarrow> clip v
                 | _ # ex \<Rightarrow> (case exponent ex of None \<Rightarrow> NaN | Some k \<Rightarrow> clip (scale v k)))))"

text \<open>
  JavaScript's conversion of a string to a number, applied where the source divides a path
  parameter (\<^verbatim>\<open>distance / earthRadius\<close>) and compares a size with an environment variable
  (\<^verbatim>\<open>file.size > process.env.MAX_FILE_UPLOAD\<close>): white space is stripped from both ends; the
  empty string is 0; a literal of radix 16, 8 or 2 takes no sign; a decimal literal is
  \<^verbatim>\<open>Infinity\<close> or digits with an optional fraction and exponent, after an optional sign;
  everything else is \<^verbatim>\<open>NaN\<close>.
\<close>

definition to_number :: "string \<Rightarrow> number" where
  "to_number s =
     (let t = trim s
      in if t = [] then Num 0
         else (case radix_prefix t of
                 Some (b, ds) \<Rightarrow>
                   (if ds = [] then NaN
                    else (case numeral_in b ds 0 of None \<Rightarrow> NaN | Some n \<Rightarrow> clip (real n)))
               | None \<Rightarrow>
                   (case t of
                      [] \<Rightarrow> Num 0
                    | c # u \<Rightarrow>
                        (if c = CHR ''-'' then negate (unsigned_decimal u)
                         else if c = CHR ''+'' then unsigned_decimal u
                         else unsigned_decimal t))))"

text \<open>\<^verbatim>\<open>x / k\<close> for a finite divisor \<open>k\<close> greater than 0.\<close>

definition quotient :: "number \<Rightarrow> real \<Rightarrow> number" where
  "quotient x k =
     (case x of
        NaN \<Rightarrow> NaN
      | Num v \<Rightarrow> Num (v / k)
      | Infinity \<Rightarrow> Infinity
      | NegInfinity \<Rightarrow> NegInfinity)"

section \<open>The storage layer\<close>

text \<open>
  A stored document is the object the controllers see: its fields in order, among them
  \<^verbatim>\<open>_id\<close>, and for a bootcamp \<^verbatim>\<open>user\<close>, the identifier of its owner.
\<close>

type_synonym doc = "(string \<times> json) list"

text \<open>
  The models \<^verbatim>\<open>models/Bootcamp\<close> and \<^verbatim>\<open>models/Course\<close> are not among the sources, and
  the object mapper is a library. What the controllers rely on them for is taken as a
  parameter:
  \<^item> \<open>cast_id\<close>: the cast of a path segment to an identifier, \<open>None\<close> when it is
    malformed (the mapper then throws a \<^verbatim>\<open>CastError\<close>);
  \<^item> \<open>prepare\<close>: what \<^verbatim>\<open>Model.create(body)\<close> makes of a body, given the stored documents:
    a fault (validation, duplicate key) or the document that is stored;
  \<^item> \<open>revise\<close>: what an update makes of a stored document and the submitted fields: a
    fault or the document that replaces it;
  \<^item> \<open>geoWithin\<close>: the spatial query
    \<^verbatim>\<open>find({location: {$geoWithin: {$centerSphere: [[lng, lat], radius]}}})\<close> on the stored
    documents, with the centre as (longitude, latitude) and the radius: a fault or the
    documents inside.
\<close>

record model =
  cast_id :: "string \<Rightarrow> string option"
  prepare :: "doc list \<Rightarrow> doc \<Rightarrow> js_error + doc"
  revise :: "doc list \<Rightarrow> doc \<Rightarrow> doc \<Rightarrow> js_error + doc"
  geoWithin :: "doc list \<Rightarrow> real \<times> real \<Rightarrow> number \<Rightarrow> js_error + doc list"

text \<open>The state the controllers act on: the two collections and the names of the files
  written under the upload directory.\<close>

record store =
  Bootcamps :: "doc list"
  Courses :: "doc list"
  disk :: "string list"

definition CastError :: "string \<Rightarrow> js_error" where
  "CastError v =
     \<lparr>name = ''CastError'',
      message = Some (''Cast to ObjectId failed for value '' @ [CHR 0x22] @ v @ [CHR 0x22]
                      @ '' at path '' @ [CHR 0x22] @ ''_id'' @ [CHR 0x22]),
      code = None, statusCode = None, errors = None\<rparr>"

definition has_id :: "string \<Rightarrow> doc \<Rightarrow> bool" where
  "has_id k d = (map_of d ''_id'' = Some (JStr k))"

text \<open>\<^verbatim>\<open>Model.findById(id)\<close>: \<open>Inl\<close> is the rejection on a malformed identifier,
  \<open>Inr None\<close> is \<^verbatim>\<open>null\<close>.\<close>

definition findById :: "model \<Rightarrow> doc list \<Rightarrow> string \<Rightarrow> js_error + doc option" where
  "findById M docs i =
     (case cast_id M i of
        None \<Rightarrow> Inl (CastError i)
      | Some k \<Rightarrow> Inr (find (has_id k) docs))"

text \<open>\<^verbatim>\<open>Model.findOne({user: id})\<close> and \<^verbatim>\<open>Model.find({bootcamp: id})\<close>: a query on one
  reference field. The value is cast as an identifier is.\<close>

definition refers :: "string \<Rightarrow> string \<Rightarrow> doc \<Rightarrow> bool" where
  "refers field k d = (map_of d field = Some (JStr k))"

definition findOne :: "model \<Rightarrow> doc list \<Rightarrow> string \<Rightarrow> string \<Rightarrow> js_error + doc option" where
  "findOne M docs field v =
     (case cast_id M v of
        None \<Rightarrow> Inl (CastError v)
      | Some k \<Rightarrow> Inr (find (refers field k) docs))"

definition find_by :: "model \<Rightarrow> doc list \<Rightarrow> string \<Rightarrow> string \<Rightarrow> js_error + doc list" where
  "find_by M docs field v =
     (case cast_id M v of
        None \<Rightarrow> Inl (CastError v)
      | Some k \<Rightarrow> Inr (filter (refers field k) docs))"

text \<open>\<^verbatim>\<open>Model.create(body)\<close>: the new collection and the created document.\<close>

definition create :: "model \<Rightarrow> doc list \<Rightarrow> doc \<Rightarrow> js_error + (doc list \<times> doc)" where
  "create M docs b =
     (case prepare M docs b of
        Inl e \<Rightarrow> Inl e
      | Inr d \<Rightarrow> Inr (docs @ [d], d))"

text \<open>\<^verbatim>\<open>Model.findByIdAndUpdate(id, fields, {new: true, ...})\<close>: the new collection and the
  updated document, \<^verbatim>\<open>null\<close> when no document has the identifier.\<close>

definition findByIdAndUpdate ::
    "model \<Rightarrow> doc list \<Rightarrow> string \<Rightarrow> doc \<Rightarrow> js_error + (doc list \<times> doc option)" where
  "findByIdAndUpdate M docs i upd =
     (case cast_id M i of
        None \<Rightarrow> Inl (CastError i)
      | Some k \<Rightarrow>
          (case find (has_id k) docs of
             None \<Rightarrow> Inr (docs, None)
           | Some d \<Rightarrow>
               (case revise M docs d upd of
                  Inl e \<Rightarrow> Inl e
                | Inr d' \<Rightarrow> Inr (map (\<lambda>x. if has_id k x then d' else x) docs, Some d'))))"

text \<open>\<^verbatim>\<open>document.remove()\<close>: the collection without the document.\<close>

definition remove :: "doc list \<Rightarrow> doc \<Rightarrow> doc list" where
  "remove docs d = filter (\<lambda>x. map_of x ''_id'' \<noteq> map_of d ''_id'') docs"

text \<open>\<^verbatim>\<open>obj.key = v\<close> on a plain object: an existing key keeps its place.\<close>

fun assign :: "string \<Rightarrow> json \<Rightarrow> doc \<Rightarrow> doc" where
  "assign k v [] = [(k, v)]"
| "assign k v ((k', v') # kvs) = (if k' = k then (k, v) # kvs else (k', v') # assign k v kvs)"

text \<open>A reference field read as a string (\<^verbatim>\<open>bootcamp.user.toString()\<close>, \<^verbatim>\<open>bootcamp._id\<close> in a
  template): \<open>None\<close> when the field is missing.\<close>

definition ref_string :: "doc \<Rightarrow> string \<Rightarrow> string option" where
  "ref_string d field = (case map_of d field of Some (JStr s) \<Rightarrow> Some s | _ \<Rightarrow> None)"

section \<open>Requests and handlers\<close>

text \<open>\<^verbatim>\<open>req.user\<close>, set by the \<^verbatim>\<open>protect\<close> middleware on the private routes.\<close>

record principal =
  user_id :: string
  role :: string

text \<open>An uploaded file as \<^verbatim>\<open>express-fileupload\<close> presents it: \<^verbatim>\<open>name\<close>, \<^verbatim>\<open>mimetype\<close>,
  \<^verbatim>\<open>size\<close>.\<close>

record upload =
  file_name :: string
  mimetype :: string
  file_size :: nat

text \<open>What \<^verbatim>\<open>express-fileupload\<close> puts under a field name: the file, or an array of
  files when several came under that name.\<close>

datatype attachment = One upload | Many "upload list"

text \<open>
  What the controllers read of a request: the path parameters, the body, the principal,
  \<^verbatim>\<open>req.files\<close> (\<open>None\<close> when nothing was attached; otherwise the object that holds the
  attachments by field name) and \<^verbatim>\<open>res.advancedResults\<close>, the body the query-shaping
  middleware prepared.
\<close>

record req =
  params_id :: string
  params_bootcampId :: "string option"
  params_zipcode :: string
  params_distance :: string
  body :: doc
  user :: principal
  files :: "(string \<times> attachment) list option"
  advancedResults :: json

text \<open>How a handler ends: it wrote a response, it called \<^verbatim>\<open>next(err)\<close>, it threw (or
  its promise rejected), or a rejection happened where nothing catches it (part_002 then
  closes the server and exits).\<close>

datatype signal =
    Sent response
  | Next js_error
  | Thrown js_error
  | Unhandled js_error

text \<open>
  Modelled from the spec: \<^verbatim>\<open>middleware/async\<close> is not among the sources. The spec has an
  error raised during request handling forwarded to the Error Normalizer, so the wrapper
  turns a throw of the handler into \<^verbatim>\<open>next(err)\<close>.
\<close>

definition asyncHandler ::
    "(req \<Rightarrow> store \<Rightarrow> signal \<times> store) \<Rightarrow> req \<Rightarrow> store \<Rightarrow> signal \<times> store" where
  "asyncHandler fn rq s =
     (case fn rq s of
        (Thrown e, s') \<Rightarrow> (Next e, s')
      | r \<Rightarrow> r)"

text \<open>part_002 mounts \<^verbatim>\<open>errorHandler\<close> last: an error passed to \<^verbatim>\<open>next\<close> reaches it. The
  result is the response the client gets, or \<open>Inl\<close> when none is written.\<close>

definition respond :: "signal \<times> store \<Rightarrow> js_error + response" where
  "respond r =
     (case fst r of
        Sent res \<Rightarrow> Inr res
      | Next e \<Rightarrow> errorHandler e
      | Thrown e \<Rightarrow> Inl e
      | Unhandled e \<Rightarrow> Inl e)"

section \<open>Runtime helpers\<close>

text \<open>The message of the \<^verbatim>\<open>TypeError\<close> for reading property \<open>p\<close> of \<^verbatim>\<open>null\<close> or
  \<^verbatim>\<open>undefined\<close> (the wording of Node 14 and earlier).\<close>

definition cannot_read :: "string \<Rightarrow> string \<Rightarrow> js_error" where
  "cannot_read p v =
     TypeError (''Cannot read property '' @ [CHR 0x27] @ p @ [CHR 0x27] @ '' of '' @ v)"

text \<open>\<^verbatim>\<open>String.prototype.startsWith\<close>.\<close>

definition startsWith :: "string \<Rightarrow> string \<Rightarrow> bool" where
  "startsWith s p = (take (length p) s = p)"

text \<open>A template's text for an environment variable: an unset one prints as
  \<^verbatim>\<open>undefined\<close>.\<close>

definition env_text :: "string option \<Rightarrow> string" where
  "env_text v = (case v of None \<Rightarrow> ''undefined'' | Some t \<Rightarrow> t)"

text \<open>\<^verbatim>\<open>file.size > process.env.MAX_FILE_UPLOAD\<close>: the variable is a string or undefined;
  it is converted to a number (undefined to \<^verbatim>\<open>NaN\<close>), and a comparison with \<^verbatim>\<open>NaN\<close> is
  false.\<close>

definition exceeds :: "nat \<Rightarrow> string option \<Rightarrow> bool" where
  "exceeds n v =
     (case v of
        None \<Rightarrow> False
      | Some t \<Rightarrow>
          (case to_number t of
             NaN \<Rightarrow> False
           | Num m \<Rightarrow> real n > m
           | Infinity \<Rightarrow> False
           | NegInfinity \<Rightarrow> True))"

text \<open>
  \<^verbatim>\<open>path.parse(name).ext\<close> (POSIX). The last component of the path, trailing slashes
  apart, is scanned from its end: the extension runs from its last dot on, and is empty
  when the component has no dot, when its last dot comes first, or when the component is
  \<^verbatim>\<open>..\<close>. The library misses that last case for a path that is one slash and the
  component (\<^verbatim>\<open>/..\<close> has extension \<^verbatim>\<open>.\<close>), which \<open>lead\<close> below tells apart.
\<close>

definition ext :: "string \<Rightarrow> string" where
  "ext nm =
     (let t = dropWhile (\<lambda>c. c = CHR ''/'') (rev nm);
          b = rev (takeWhile (\<lambda>c. c \<noteq> CHR ''/'') t);
          lead = dropWhile (\<lambda>c. c \<noteq> CHR ''/'') t;
          suffix = rev (takeWhile (\<lambda>c. c \<noteq> CHR ''.'') (rev b));
          stem = take (length b - length suffix - 1) b
      in if stem = [] \<or> (b = ''..'' \<and> lead \<noteq> ''/'') \<or> CHR ''.'' \<notin> set b
         then [] else CHR ''.'' # suffix)"

text \<open>The variables of \<^verbatim>\<open>process.env\<close> the controllers read.\<close>

record process_env =
  MAX_FILE_UPLOAD :: "string option"
  FILE_UPLOAD_PATH :: "string option"

section \<open>The bootcamp controllers (part_001)\<close>

definition not_found :: "string \<Rightarrow> js_error" where
  "not_found i = ErrorResponse (Text (''Bootcamp not found with the id of '' @ i)) (Some 404)"

definition getBootcamps_body :: "req \<Rightarrow> store \<Rightarrow> signal \<times> store" where
  "getBootcamps_body rq s = (Sent \<lparr>status = 200, payload = advancedResults rq\<rparr>, s)"

definition getBootcamps :: "req \<Rightarrow> store \<Rightarrow> signal \<times> store" where
  "getBootcamps = asyncHandler getBootcamps_body"

definition getBootcampById_body :: "model \<Rightarrow> req \<Rightarrow> store \<Rightarrow> signal \<times> store" where
  "getBootcampById_body Bootcamp rq s =
     (case findById Bootcamp (Bootcamps s) (params_id rq) of
        Inl e \<Rightarrow> (Thrown e, s)
      | Inr None \<Rightarrow> (Next (not_found (params_id rq)), s)
      | Inr (Some bootcamp) \<Rightarrow>
          (Sent \<lparr>status = 200,
                 payload = JObj [(''success'', JBool True), (''data'', JObj bootcamp)]\<rparr>, s))"

definition getBootcampById :: "model \<Rightarrow> req \<Rightarrow> store \<Rightarrow> signal \<times> store" where
  "getBootcampById Bootcamp = asyncHandler (getBootcampById_body Bootcamp)"

text \<open>\<^verbatim>\<open>createBootcamp\<close>: the body gets the principal as \<^verbatim>\<open>user\<close>; a principal who is not
  an admin and has a bootcamp already is refused before \<^verbatim>\<open>Bootcamp.create\<close>.\<close>

definition createBootcamp_body :: "model \<Rightarrow> req \<Rightarrow> store \<Rightarrow> signal \<times> store" where
  "createBootcamp_body Bootcamp rq s =
     (let b = assign ''user'' (JStr (user_id (user rq))) (body rq)
      in case findOne Bootcamp (Bootcamps s) ''user'' (user_id (user rq)) of
           Inl e \<Rightarrow> (Thrown e, s)
         | Inr publishedBootcamp \<Rightarrow>
             (if publishedBootcamp \<noteq> None \<and> role (user rq) \<noteq> ''admin''
              then (Next (ErrorResponse
                            (Text (''The user with ID '' @ user_id (user rq)
                                   @ '' has already published a bootcamp'')) (Some 400)), s)
              else (case create Bootcamp (Bootcamps s) b of
                      Inl e \<Rightarrow> (Thrown e, s)
                    | Inr (docs, bootcamp) \<Rightarrow>
                        (Sent \<lparr>status = 201,
                               payload = JObj [(''sucess'', JBool True),
                                               (''data'', JObj bootcamp)]\<rparr>,
                         s\<lparr>Bootcamps := docs\<rparr>))))"

definition createBootcamp :: "model \<Rightarrow> req \<Rightarrow> store \<Rightarrow> signal \<times> store" where
  "createBootcamp Bootcamp = asyncHandler (createBootcamp_body Bootcamp)"

text \<open>\<^verbatim>\<open>findByIdAndUpdate\<close> answers \<^verbatim>\<open>null\<close> when the document is gone; \<^verbatim>\<open>data\<close> is then
  \<^verbatim>\<open>null\<close>.\<close>

definition nullable :: "doc option \<Rightarrow> json" where
  "nullable d = (case d of None \<Rightarrow> JNull | Some x \<Rightarrow> JObj x)"

definition updateBootcamp_body :: "model \<Rightarrow> req \<Rightarrow> store \<Rightarrow> signal \<times> store" where
  "updateBootcamp_body Bootcamp rq s =
     (case findById Bootcamp (Bootcamps s) (params_id rq) of
        Inl e \<Rightarrow> (Thrown e, s)
      | Inr None \<Rightarrow> (Next (not_found (params_id rq)), s)
      | Inr (Some bootcamp) \<Rightarrow>
          (case ref_string bootcamp ''user'' of
             None \<Rightarrow> (Thrown (cannot_read ''toString'' ''undefined''), s)
           | Some owner \<Rightarrow>
               (if owner \<noteq> user_id (user rq) \<and> role (user rq) \<noteq> ''admin''
                then (Next (ErrorResponse
                              (Text (''User '' @ params_id rq
                                     @ '' is not authorized to update this bootcamp''))
                              (Some 401)), s)
                else (case findByIdAndUpdate Bootcamp (Bootcamps s) (params_id rq) (body rq) of
                        Inl e \<Rightarrow> (Thrown e, s)
                      | Inr (docs, updated) \<Rightarrow>
                          (Sent \<lparr>status = 200,
                                 payload = JObj [(''success'', JBool True),
                                                 (''data'', nullable updated)]\<rparr>,
                           s\<lparr>Bootcamps := docs\<rparr>)))))"

definition updateBootcamp :: "model \<Rightarrow> req \<Rightarrow> store \<Rightarrow> signal \<times> store" where
  "updateBootcamp Bootcamp = asyncHandler (updateBootcamp_body Bootcamp)"

text \<open>\<^verbatim>\<open>deleteBootcamp\<close> compares the owner with the string literal \<^verbatim>\<open>'req.user.id'\<close>
  (line 85), not with the principal's identifier.\<close>

definition deleteBootcamp_body :: "model \<Rightarrow> req \<Rightarrow> store \<Rightarrow> signal \<times> store" where
  "deleteBootcamp_body Bootcamp rq s =
     (case findById Bootcamp (Bootcamps s) (params_id rq) of
        Inl e \<Rightarrow> (Thrown e, s)
      | Inr None \<Rightarrow> (Next (not_found (params_id rq)), s)
      | Inr (Some bootcamp) \<Rightarrow>
          (case ref_string bootcamp ''user'' of
             None \<Rightarrow> (Thrown (cannot_read ''toString'' ''undefined''), s)
           | Some owner \<Rightarrow>
               (if owner \<noteq> ''req.user.id'' \<and> role (user rq) \<noteq> ''admin''
                then (Next (ErrorResponse
                              (Text (''User '' @ params_id rq
                                     @ '' is not authorized to delete this bootcamp''))
                              (Some 401)), s)
                else (Sent \<lparr>status = 200,
                             payload = JObj [(''success'', JBool True), (''data'', JObj [])]\<rparr>,
                      s\<lparr>Bootcamps := remove (Bootcamps s) bootcamp\<rparr>))))"

definition deleteBootcamp :: "model \<Rightarrow> req \<Rightarrow> store \<Rightarrow> signal \<times> store" where
  "deleteBootcamp Bootcamp = asyncHandler (deleteBootcamp_body Bootcamp)"

text \<open>An entry of the geocoder's answer, of which \<^verbatim>\<open>latitude\<close> and \<^verbatim>\<open>longitude\<close> are
  read.\<close>

record location =
  latitude :: real
  longitude :: real

text \<open>
  \<^verbatim>\<open>getBootcampsInRadius\<close>. The geocoder (\<^verbatim>\<open>utils/geocoder\<close>, a network service) is the
  parameter \<open>geocode\<close>: a rejection or the list of entries. \<^verbatim>\<open>loc[0]\<close> of an empty answer
  is undefined, and reading \<^verbatim>\<open>latitude\<close> of it throws.
\<close>

definition getBootcampsInRadius_body ::
    "(string \<Rightarrow> js_error + location list) \<Rightarrow> model \<Rightarrow> req \<Rightarrow> store \<Rightarrow> signal \<times> store" where
  "getBootcampsInRadius_body geocode Bootcamp rq s =
     (case geocode (params_zipcode rq) of
        Inl e \<Rightarrow> (Thrown e, s)
      | Inr loc \<Rightarrow>
          (case loc of
             [] \<Rightarrow> (Thrown (cannot_read ''latitude'' ''undefined''), s)
           | l # _ \<Rightarrow>
               (let lat = latitude l;
                    lng = longitude l;
                    earthRadius = 6963;
                    radius = quotient (to_number (params_distance rq)) earthRadius
                in case geoWithin Bootcamp (Bootcamps s) (lng, lat) radius of
                     Inl e \<Rightarrow> (Thrown e, s)
                   | Inr bootcamps \<Rightarrow>
                       (Sent \<lparr>status = 200,
                              payload = JObj [(''success'', JBool True),
                                              (''count'', JNum (int (length bootcamps))),
                                              (''data'', JArr (map JObj bootcamps))]\<rparr>, s))))"

definition getBootcampsInRadius ::
    "(string \<Rightarrow> js_error + location list) \<Rightarrow> model \<Rightarrow> req \<Rightarrow> store \<Rightarrow> signal \<times> store" where
  "getBootcampsInRadius geocode Bootcamp = asyncHandler (getBootcampsInRadius_body geocode Bootcamp)"

text \<open>
  \<^verbatim>\<open>bootcampPhotoUpload\<close>. \<^verbatim>\<open>req.files.file\<close> is undefined when nothing came under the
  field name \<^verbatim>\<open>file\<close>, and reading its \<^verbatim>\<open>mimetype\<close> throws; it is an array when several
  files came under that name, its \<^verbatim>\<open>mimetype\<close> is then undefined and calling
  \<^verbatim>\<open>startsWith\<close> on that throws. \<open>mv\<close> is \<^verbatim>\<open>file.mv(path, callback)\<close>: the error it hands to the
  callback for a path, \<open>None\<close> when the file was written. The callback runs outside the
  wrapped handler, so a rejection of its \<^verbatim>\<open>findByIdAndUpdate\<close> is caught by nothing.
\<close>

definition bootcampPhotoUpload_body ::
    "process_env \<Rightarrow> (string \<Rightarrow> js_error option) \<Rightarrow> model \<Rightarrow> req \<Rightarrow> store \<Rightarrow> signal \<times> store" where
  "bootcampPhotoUpload_body env mv Bootcamp rq s =
     (case findById Bootcamp (Bootcamps s) (params_id rq) of
        Inl e \<Rightarrow> (Thrown e, s)
      | Inr None \<Rightarrow> (Next (not_found (params_id rq)), s)
      | Inr (Some bootcamp) \<Rightarrow>
          (case files rq of
             None \<Rightarrow> (Next (ErrorResponse (Text ''Please upload a file'') (Some 400)), s)
           | Some fs \<Rightarrow>
               (case map_of fs ''file'' of
                  None \<Rightarrow> (Thrown (cannot_read ''mimetype'' ''undefined''), s)
                | Some (Many several) \<Rightarrow>
                    (Thrown (cannot_read ''startsWith'' ''undefined''), s)
                | Some (One file) \<Rightarrow>
                    (if \<not> startsWith (mimetype file) ''image''
                     then (Next (ErrorResponse (Text ''Please upload an image file.'')
                                   (Some 400)), s)
                     else if exceeds (file_size file) (MAX_FILE_UPLOAD env)
                     then (Next (ErrorResponse
                                   (Text (''Please upload an image less than ''
                                          @ env_text (MAX_FILE_UPLOAD env))) (Some 400)), s)
                     else
                       (let nm = ''photo_'' @ env_text (ref_string bootcamp ''_id'')
                                 @ ext (file_name file);
                            target = env_text (FILE_UPLOAD_PATH env) @ ''/'' @ nm
                        in case mv target of
                             Some err \<Rightarrow>
                               (Next (ErrorResponse (Text ''Problem with file upload'')
                                        (Some 500)), s)
                           | None \<Rightarrow>
                               (case findByIdAndUpdate Bootcamp (Bootcamps s) (params_id rq)
                                       [(''photo'', JStr nm)] of
                                  Inl e \<Rightarrow> (Unhandled e, s\<lparr>disk := disk s @ [target]\<rparr>)
                                | Inr (docs, _) \<Rightarrow>
                                    (Sent \<lparr>status = 200,
                                           payload = JObj [(''sucess'', JBool True),
                                                           (''data'', JStr nm)]\<rparr>,
                                     s\<lparr>Bootcamps := docs,
                                       disk := disk s @ [target]\<rparr>)))))))"

definition bootcampPhotoUpload ::
    "process_env \<Rightarrow> (string \<Rightarrow> js_error option) \<Rightarrow> model \<Rightarrow> req \<Rightarrow> store \<Rightarrow> signal \<times> store" where
  "bootcampPhotoUpload env mv Bootcamp = asyncHandler (bootcampPhotoUpload_body env mv Bootcamp)"

section \<open>The course controllers (part_000)\<close>

text \<open>
  In this file the status is written outside the constructor call,
  \<^verbatim>\<open>next(new errorResponse(message), 404)\<close>: the error is built from the message alone, and
  \<^verbatim>\<open>next\<close> takes one argument.
\<close>

definition getCourses_body :: "model \<Rightarrow> req \<Rightarrow> store \<Rightarrow> signal \<times> store" where
  "getCourses_body Course rq s =
     (case params_bootcampId rq of
        None \<Rightarrow> (Sent \<lparr>status = 200, payload = advancedResults rq\<rparr>, s)
      | Some i \<Rightarrow>
          (if i = [] then (Sent \<lparr>status = 200, payload = advancedResults rq\<rparr>, s)
           else (case find_by Course (Courses s) ''bootcamp'' i of
                   Inl e \<Rightarrow> (Thrown e, s)
                 | Inr courses \<Rightarrow>
                     (Sent \<lparr>status = 200,
                            payload = JObj [(''success'', JBool True),
                                            (''count'', JNum (int (length courses))),
                                            (''data'', JArr (map JObj courses))]\<rparr>, s))))"

definition getCourses :: "model \<Rightarrow> req \<Rightarrow> store \<Rightarrow> signal \<times> store" where
  "getCourses Course = asyncHandler (getCourses_body Course)"

text \<open>\<^verbatim>\<open>course.populate({path: 'bootcamp', select: 'name description'})\<close>: the reference
  is replaced by the selected fields of the bootcamp it names, or by \<^verbatim>\<open>null\<close>.\<close>

definition populate :: "doc list \<Rightarrow> doc \<Rightarrow> doc" where
  "populate bootcamps course =
     (case ref_string course ''bootcamp'' of
        None \<Rightarrow> course
      | Some k \<Rightarrow>
          assign ''bootcamp''
            (case find (has_id k) bootcamps of
               None \<Rightarrow> JNull
             | Some b \<Rightarrow> JObj (filter (\<lambda>kv. fst kv \<in> set [''_id'', ''name'', ''description'']) b))
            course)"

text \<open>
  \<^verbatim>\<open>getCourse\<close> calls \<^verbatim>\<open>populate\<close> on the awaited result of \<^verbatim>\<open>findById\<close> before it tests
  it: on \<^verbatim>\<open>null\<close> that throws. What \<^verbatim>\<open>populate\<close> returns is a document, so the test
  \<^verbatim>\<open>!course\<close> of line 33 is never true.
\<close>

definition getCourse_body :: "model \<Rightarrow> req \<Rightarrow> store \<Rightarrow> signal \<times> store" where
  "getCourse_body Course rq s =
     (case findById Course (Courses s) (params_id rq) of
        Inl e \<Rightarrow> (Thrown e, s)
      | Inr None \<Rightarrow> (Thrown (cannot_read ''populate'' ''null''), s)
      | Inr (Some found) \<Rightarrow>
          (let course = populate (Bootcamps s) found
           in (Sent \<lparr>status = 200,
                      payload = JObj [(''sucess'', JBool True), (''data'', JObj course)]\<rparr>, s)))"

definition getCourse :: "model \<Rightarrow> req \<Rightarrow> store \<Rightarrow> signal \<times> store" where
  "getCourse Course = asyncHandler (getCourse_body Course)"

text \<open>\<^verbatim>\<open>addCourse\<close>. Without a \<^verbatim>\<open>bootcampId\<close> in the path, \<^verbatim>\<open>findById(undefined)\<close> finds
  nothing.\<close>

definition addCourse_body :: "model \<Rightarrow> model \<Rightarrow> req \<Rightarrow> store \<Rightarrow> signal \<times> store" where
  "addCourse_body Bootcamp Course rq s =
     (case params_bootcampId rq of
        None \<Rightarrow> (Next (ErrorResponse (Text ''No bootcamp with the id: undefined'') None), s)
      | Some i \<Rightarrow>
          (let b = assign ''bootcamp'' (JStr i) (body rq)
           in case findById Bootcamp (Bootcamps s) i of
                Inl e \<Rightarrow> (Thrown e, s)
              | Inr None \<Rightarrow>
                  (Next (ErrorResponse (Text (''No bootcamp with the id: '' @ i)) None), s)
              | Inr (Some bootcamp) \<Rightarrow>
                  (case create Course (Courses s) b of
                     Inl e \<Rightarrow> (Thrown e, s)
                   | Inr (docs, course) \<Rightarrow>
                       (Sent \<lparr>status = 200,
                              payload = JObj [(''sucess'', JBool True),
                                              (''data'', JObj course)]\<rparr>,
                        s\<lparr>Courses := docs\<rparr>))))"

definition addCourse :: "model \<Rightarrow> model \<Rightarrow> req \<Rightarrow> store \<Rightarrow> signal \<times> store" where
  "addCourse Bootcamp Course = asyncHandler (addCourse_body Bootcamp Course)"

definition updateCourse_body :: "model \<Rightarrow> req \<Rightarrow> store \<Rightarrow> signal \<times> store" where
  "updateCourse_body Course rq s =
     (case findById Course (Courses s) (params_id rq) of
        Inl e \<Rightarrow> (Thrown e, s)
      | Inr None \<Rightarrow>
          (Next (ErrorResponse (Text (''No course with the id: '' @ params_id rq)) None), s)
      | Inr (Some found) \<Rightarrow>
          (case findByIdAndUpdate Course (Courses s) (params_id rq) (body rq) of
             Inl e \<Rightarrow> (Thrown e, s)
           | Inr (docs, course) \<Rightarrow>
               (Sent \<lparr>status = 200,
                      payload = JObj [(''sucess'', JBool True), (''data'', nullable course)]\<rparr>,
                s\<lparr>Courses := docs\<rparr>)))"

definition updateCourse :: "model \<Rightarrow> req \<Rightarrow> store \<Rightarrow> signal \<times> store" where
  "updateCourse Course = asyncHandler (updateCourse_body Course)"

definition deleteCourse_body :: "model \<Rightarrow> req \<Rightarrow> store \<Rightarrow> signal \<times> store" where
  "deleteCourse_body Course rq s =
     (case findById Course (Courses s) (params_id rq) of
        Inl e \<Rightarrow> (Thrown e, s)
      | Inr None \<Rightarrow>
          (Next (ErrorResponse (Text (''Course not found with the id: '' @ params_id rq)) None),
           s)
      | Inr (Some course) \<Rightarrow>
          (Sent \<lparr>status = 200,
                 payload = JObj [(''sucess'', JBool True), (''data'', JObj course)]\<rparr>,
           s\<lparr>Courses := remove (Courses s) course\<rparr>))"

definition deleteCourse :: "model \<Rightarrow> req \<Rightarrow> store \<Rightarrow> signal \<times> store" where
  "deleteCourse Course = asyncHandler (deleteCourse_body Course)"

section \<open>The envelope shapes of the specification\<close>

text \<open>
  The Success Envelope \<^verbatim>\<open>{success: true, data: T, count?: integer}\<close> and the Failure
  Envelope \<^verbatim>\<open>{success: false, error: string}\<close>, as the specification's data model words
  them: one JSON object with these keys and no other.
\<close>

definition success_envelope :: "json \<Rightarrow> bool" where
  "success_envelope j =
     (case j of
        JObj kvs \<Rightarrow>
          distinct (map fst kvs)
          \<and> list_all (\<lambda>k. k \<in> set [''success'', ''data'', ''count'']) (map fst kvs)
          \<and> map_of kvs ''success'' = Some (JBool True)
          \<and> map_of kvs ''data'' \<noteq> None
          \<and> (case map_of kvs ''count'' of None \<Rightarrow> True | Some (JNum n) \<Rightarrow> True | Some _ \<Rightarrow> False)
      | _ \<Rightarrow> False)"

definition failure_envelope :: "json \<Rightarrow> bool" where
  "failure_envelope j =
     (case j of
        JObj kvs \<Rightarrow>
          distinct (map fst kvs)
          \<and> list_all (\<lambda>k. k \<in> set [''success'', ''error'']) (map fst kvs)
          \<and> map_of kvs ''success'' = Some (JBool False)
          \<and> (case map_of kvs ''error'' of Some (JStr m) \<Rightarrow> True | _ \<Rightarrow> False)
      | _ \<Rightarrow> False)"

section \<open>A sample deployment\<close>

text \<open>
  Concrete collaborators and data on which the controllers are run: identifiers are 24
  hexadecimal characters, a created document gets a fixed new identifier in front of the
  submitted fields, an update assigns the submitted fields, and the spatial query answers
  the stored documents that a flat test puts within the radius.
\<close>

definition is_hex :: "char \<Rightarrow> bool" where
  "is_hex c = (c \<in> set ''0123456789abcdefABCDEF'')"

text \<open>The sample spatial test, on documents that hold whole degrees in \<^verbatim>\<open>lng\<close> and
  \<^verbatim>\<open>lat\<close>: a flat stand-in for the spherical cap, at 57 degrees to the radian.\<close>

definition planar_within :: "real \<times> real \<Rightarrow> real \<Rightarrow> doc \<Rightarrow> bool" where
  "planar_within centre r d =
     (case (map_of d ''lng'', map_of d ''lat'') of
        (Some (JNum x), Some (JNum y)) \<Rightarrow>
          (real_of_int x - fst centre)\<^sup>2 + (real_of_int y - snd centre)\<^sup>2 \<le> (57 * r)\<^sup>2
      | _ \<Rightarrow> False)"

definition sample_model :: model where
  "sample_model =
     \<lparr>cast_id = (\<lambda>i. if length i = 24 \<and> list_all is_hex i then Some i else None),
      prepare = (\<lambda>docs b. Inr ((''_id'', JStr ''5d725a1b7b292f5f8ceff788'') # b)),
      revise = (\<lambda>docs d upd. Inr (fold (\<lambda>kv. assign (fst kv) (snd kv)) upd d)),
      geoWithin = (\<lambda>docs centre radius.
                     case radius of
                       Num r \<Rightarrow>
                         (if r < 0 then Inl (TypeError ''radius must be a non-negative number'')
                          else Inr (filter (planar_within centre r) docs))
                     | Infinity \<Rightarrow> Inr docs
                     | _ \<Rightarrow> Inl (TypeError ''radius must be a non-negative number''))\<rparr>"

definition devworks :: doc where
  "devworks =
     [(''_id'', JStr ''5d713995b721c3bb38c1f5d0''),
      (''name'', JStr ''Devworks Bootcamp''),
      (''user'', JStr ''5d7a514b5d2c12c7449be045'')]"

definition front_end :: doc where
  "front_end =
     [(''_id'', JStr ''5d725a4a7b292f5f8ceff789''),
      (''title'', JStr ''Front End Web Development''),
      (''bootcamp'', JStr ''5d713995b721c3bb38c1f5d0'')]"

definition sample_store :: store where
  "sample_store = \<lparr>Bootcamps = [devworks], Courses = [front_end], disk = []\<rparr>"

text \<open>The owner of \<open>devworks\<close>, a publisher; another publisher, who owns nothing.\<close>

definition owner :: principal where
  "owner = \<lparr>user_id = ''5d7a514b5d2c12c7449be045'', role = ''publisher''\<rparr>"

definition newcomer :: principal where
  "newcomer = \<lparr>user_id = ''5d7a514b5d2c12c7449be046'', role = ''publisher''\<rparr>"

text \<open>A request on the stored bootcamp by its owner, with nothing attached; the other
  sample requests vary it.\<close>

definition request :: req where
  "request =
     \<lparr>params_id = ''5d713995b721c3bb38c1f5d0'',
      params_bootcampId = None,
      params_zipcode = ''90210'',
      params_distance = ''10'',
      body = [(''name'', JStr ''ModernTech Bootcamp'')],
      user = owner,
      files = None,
      advancedResults = JObj [(''success'', JBool True), (''count'', JNum 0), (''data'', JArr [])]\<rparr>"

text \<open>An identifier that is well formed and names no stored document.\<close>

definition unknown_id :: string where
  "unknown_id = ''5d713995b721c3bb38c1f5ff''"

definition sample_env :: process_env where
  "sample_env = \<lparr>MAX_FILE_UPLOAD = Some ''1000000'', FILE_UPLOAD_PATH = Some ''./public/uploads''\<rparr>"

definition pdf :: upload where
  "pdf = \<lparr>file_name = ''syllabus.pdf'', mimetype = ''application/pdf'', file_size = 2048\<rparr>"

definition sample_geocode :: "string \<Rightarrow> js_error + location list" where
  "sample_geocode zipcode =
     (if zipcode = ''90210'' then Inr [\<lparr>latitude = 34, longitude = - 118\<rparr>] else Inr [])"

text \<open>Two bootcamps with coordinates: one at the place the sample geocoder gives for
  \<^verbatim>\<open>90210\<close>, one a degree to the west and a degree to the north of it.\<close>

definition hollywood :: doc where
  "hollywood =
     [(''_id'', JStr ''5d713a66ec8f2b88b8f830b8''),
      (''name'', JStr ''ModernTech Bootcamp''),
      (''lng'', JNum (- 118)),
      (''lat'', JNum 34)]"

definition bakersfield :: doc where
  "bakersfield =
     [(''_id'', JStr ''5d725a037b292f5f8ceff787''),
      (''name'', JStr ''Codemasters''),
      (''lng'', JNum (- 119)),
      (''lat'', JNum 35)]"

definition coast_store :: store where
  "coast_store = \<lparr>Bootcamps = [hollywood, bakersfield], Courses = [], disk = []\<rparr>"

section \<open>Decimal numerals\<close>

text \<open>The decimal numeral of a natural number, as a client writes a whole number of miles
  in the path: the digits of \<open>n\<close>, most significant first, without leading zeros.\<close>

definition is_decimal :: "char \<Rightarrow> bool" where
  "is_decimal c = (c \<in> set ''0123456789'')"

definition decimal_digit :: "nat \<Rightarrow> char" where
  "decimal_digit d = ''0123456789'' ! d"

fun decimal :: "nat \<Rightarrow> string" where
  "decimal n = (if n < 10 then [decimal_digit n] else decimal (n div 10) @ [decimal_digit (n mod 10)])"

declare decimal.simps [simp del]

section \<open>Facts shared by the proofs\<close>

lemmas handler_defs =
  respond_def asyncHandler_def errorHandler_def normalise_def failure_def ErrorResponse_def
  status_or_500_def message_or_default_def

lemma find_None_filter: "find P xs = None \<Longrightarrow> filter P xs = []"
  by (induction xs) (auto split: if_splits)

subsection \<open>The conversion of decimal numerals\<close>

lemma digit_value_decimal_digit: "d < 10 \<Longrightarrow> digit_value (decimal_digit d) = Some d"
proof -
  assume "d < 10"
  then have "d \<in> {0, 1, 2, 3, 4, 5, 6, 7, 8, 9}" by auto
  then show ?thesis
    by (elim insertE emptyE) (simp_all add: digit_value_def decimal_digit_def)
qed

lemma is_decimal_digit: "d < 10 \<Longrightarrow> is_decimal (decimal_digit d)"
proof -
  assume "d < 10"
  then have "d \<in> {0, 1, 2, 3, 4, 5, 6, 7, 8, 9}" by auto
  then show ?thesis
    by (elim insertE emptyE) (simp_all add: decimal_digit_def is_decimal_def)
qed

lemma decimal_chars: "list_all is_decimal (decimal n)"
proof (induction n rule: decimal.induct)
  case (1 n)
  show ?case
  proof (cases "n < 10")
    case True
    then show ?thesis
      by (subst decimal.simps) (simp add: is_decimal_digit)
  next
    case False
    then show ?thesis
      using 1 by (subst decimal.simps) (simp add: is_decimal_digit)
  qed
qed

lemma decimal_not_Nil: "decimal n \<noteq> []"
  by (subst decimal.simps) simp

lemma numeral_in_append:
  "numeral_in b (xs @ ys) acc =
     (case numeral_in b xs acc of None \<Rightarrow> None | Some a \<Rightarrow> numeral_in b ys a)"
  by (induction xs arbitrary: acc) (auto split: option.splits)

lemma numeral_in_decimal: "numeral_in 10 (decimal n) 0 = Some n"
proof (induction n rule: decimal.induct)
  case (1 n)
  show ?case
  proof (cases "n < 10")
    case True
    then show ?thesis
      by (subst decimal.simps) (simp add: digit_value_decimal_digit)
  next
    case False
    then have "numeral_in 10 (decimal (n div 10)) 0 = Some (n div 10)"
      using 1 by simp
    moreover have "digit_value (decimal_digit (n mod 10)) = Some (n mod 10)"
      by (rule digit_value_decimal_digit) simp
    ultimately show ?thesis
      using False by (subst decimal.simps) (simp add: numeral_in_append)
  qed
qed


lemma takeWhile_all: "list_all P xs \<Longrightarrow> takeWhile P xs = xs"
  by (induction xs) auto

lemma dropWhile_all: "list_all P xs \<Longrightarrow> dropWhile P xs = []"
  by (induction xs) auto

lemma list_all_mono: "list_all P xs \<Longrightarrow> (\<And>x. P x \<Longrightarrow> Q x) \<Longrightarrow> list_all Q xs"
  by (induction xs) auto

lemma lstrip_no_blank:
  assumes "\<And>w. w \<in> set ws \<Longrightarrow> w \<noteq> [] \<Longrightarrow> take (length w) s \<noteq> w"
  shows "lstrip ws s = s"
proof -
  have "find (\<lambda>w. w \<noteq> [] \<and> take (length w) s = w) ws = None"
    using assms by (auto simp add: find_None_iff)
  then show ?thesis by (subst lstrip.simps) simp
qed

lemma blanks_first: "w \<in> set blanks \<Longrightarrow> \<not> is_decimal (hd w)"
  by (auto simp add: blanks_def is_decimal_def)

lemma blanks_last: "w \<in> set blanks \<Longrightarrow> \<not> is_decimal (last w)"
  by (auto simp add: blanks_def is_decimal_def)

lemma trim_decimals:
  assumes "list_all is_decimal s" and "s \<noteq> []"
  shows "trim s = s"
proof (cases s)
  case Nil
  with assms show ?thesis by simp
next
  case (Cons c cs)
  with assms have h: "is_decimal (hd s)" by simp
  from Cons assms have l: "is_decimal (last s)"
    by (metis last_in_set list.distinct(1) list_all_iff)
  have a: "lstrip blanks s = s"
  proof (rule lstrip_no_blank)
    fix w assume w: "w \<in> set blanks" "w \<noteq> []" 
    show "take (length w) s \<noteq> w"
    proof
      assume "take (length w) s = w"
      then have "hd w = hd s" using w(2) Cons by (metis hd_take length_greater_0_conv)
      with h blanks_first [OF w(1)] show False by simp
    qed
  qed
  have b: "lstrip (map rev blanks) (rev s) = rev s"
  proof (rule lstrip_no_blank)
    fix w assume w: "w \<in> set (map rev blanks)" "w \<noteq> []"
    then obtain v where v: "v \<in> set blanks" "w = rev v" by auto
    show "take (length w) (rev s) \<noteq> w"
    proof
      assume "take (length w) (rev s) = w"
      then have "hd w = hd (rev s)" using w(2) Cons by (metis hd_take length_greater_0_conv)
      then have "last v = last s" using v w(2) Cons by (simp add: hd_rev)
      with l blanks_last [OF v(1)] show False by simp
    qed
  qed
  show ?thesis by (simp add: trim_def a b)
qed

lemma is_decimal_no_radix: "is_decimal c \<Longrightarrow> c \<notin> set ''xXoObB''"
  unfolding is_decimal_def by (elim insertE emptyE | simp only: set_simps)+ simp_all

lemma radix_prefix_decimals: "list_all is_decimal s \<Longrightarrow> radix_prefix s = None"
proof (cases s)
  case Nil
  then show ?thesis by (simp add: radix_prefix_def)
next
  case (Cons c0 t)
  assume a: "list_all is_decimal s"
  show ?thesis
  proof (cases t)
    case Nil
    with Cons show ?thesis by (simp add: radix_prefix_def)
  next
    case (Cons c1 ds)
    with a \<open>s = c0 # t\<close> have "is_decimal c1" by simp
    then have "c1 \<notin> set ''xXoObB''" by (rule is_decimal_no_radix)
    then show ?thesis
      using Cons \<open>s = c0 # t\<close> by (simp add: radix_prefix_def)
  qed
qed

lemma mantissa_decimal: "mantissa (decimal n) = Some (real n)"
proof -
  have "list_all (\<lambda>c. c \<noteq> CHR ''.'') (decimal n)"
    by (rule list_all_mono [OF decimal_chars]) (auto simp add: is_decimal_def)
  then show ?thesis
    by (simp add: mantissa_def takeWhile_all dropWhile_all decimal_not_Nil numeral_in_decimal)
qed

lemma unsigned_decimal_decimal: "unsigned_decimal (decimal n) = clip (real n)"
proof -
  have e: "list_all (\<lambda>c. c \<notin> set ''eE'') (decimal n)"
    by (rule list_all_mono [OF decimal_chars]) (auto simp add: is_decimal_def)
  have "\<not> list_all is_decimal ''Infinity''"
    by (simp add: is_decimal_def)
  then have "decimal n \<noteq> ''Infinity''"
    using decimal_chars [of n] by metis
  then show ?thesis
    using e by (simp add: unsigned_decimal_def takeWhile_all dropWhile_all mantissa_decimal
        del: set_simps)
qed

lemma to_number_decimal: "to_number (decimal n) = clip (real n)"
proof -
  obtain c cs where c: "decimal n = c # cs"
    using decimal_not_Nil [of n] by (cases "decimal n") auto
  then have "is_decimal c" using decimal_chars [of n] by simp
  then have s: "c \<noteq> CHR ''-''" "c \<noteq> CHR ''+''" by (auto simp add: is_decimal_def)
  have t: "trim (decimal n) = decimal n"
    by (rule trim_decimals [OF decimal_chars decimal_not_Nil])
  have r: "radix_prefix (decimal n) = None"
    by (rule radix_prefix_decimals [OF decimal_chars])
  have "to_number (decimal n) =
          (case decimal n of
             [] \<Rightarrow> Num 0
           | c # u \<Rightarrow>
               (if c = CHR ''-'' then negate (unsigned_decimal u)
                else if c = CHR ''+'' then unsigned_decimal u
                else unsigned_decimal (decimal n)))"
    by (simp add: to_number_def t r decimal_not_Nil Let_def)
  also have "\<dots> = unsigned_decimal (decimal n)"
    using s by (simp add: c)
  finally show ?thesis by (simp add: unsigned_decimal_decimal)
qed

lemma overflow_positive: "0 < overflow"
  by (simp add: overflow_def)

lemma clip_in_range: "0 \<le> v \<Longrightarrow> v < overflow \<Longrightarrow> clip v = Num v"
  using overflow_positive by (simp add: clip_def)

section \<open>The ownership check (C1)\<close>

text \<open>
  \<^verbatim>\<open>updateBootcamp\<close> on a stored bootcamp: a principal who is neither the owner nor an
  admin gets the 401 Error Value and the store is as before; the owner and an admin reach
  \<^verbatim>\<open>findByIdAndUpdate\<close>.
\<close>

lemma updateBootcamp_refuses:
  assumes "findById Bootcamp (Bootcamps s) (params_id rq) = Inr (Some bootcamp)"
    and "ref_string bootcamp ''user'' = Some u"
    and "u \<noteq> user_id (user rq)" and "role (user rq) \<noteq> ''admin''"
  shows "updateBootcamp Bootcamp rq s =
           (Next (ErrorResponse
                    (Text (''User '' @ params_id rq @ '' is not authorized to update this bootcamp''))
                    (Some 401)), s)"
  using assms by (simp add: updateBootcamp_def asyncHandler_def updateBootcamp_body_def)

lemma updateBootcamp_proceeds:
  assumes "findById Bootcamp (Bootcamps s) (params_id rq) = Inr (Some bootcamp)"
    and "ref_string bootcamp ''user'' = Some u"
    and "u = user_id (user rq) \<or> role (user rq) = ''admin''"
  shows "updateBootcamp Bootcamp rq s =
           (case findByIdAndUpdate Bootcamp (Bootcamps s) (params_id rq) (body rq) of
              Inl e \<Rightarrow> (Next e, s)
            | Inr (docs, updated) \<Rightarrow>
                (Sent \<lparr>status = 200,
                       payload = JObj [(''success'', JBool True), (''data'', nullable updated)]\<rparr>,
                 s\<lparr>Bootcamps := docs\<rparr>))"
  using assms
  by (auto simp add: updateBootcamp_def asyncHandler_def updateBootcamp_body_def
      split: sum.splits prod.splits)

text \<open>
  \<^verbatim>\<open>deleteBootcamp\<close> on a stored bootcamp: the test of line 85 does not read the principal's
  identifier, so whoever is not an admin is refused unless the owner field holds the text
  \<^verbatim>\<open>req.user.id\<close>.
\<close>

lemma deleteBootcamp_refuses:
  assumes "findById Bootcamp (Bootcamps s) (params_id rq) = Inr (Some bootcamp)"
    and "ref_string bootcamp ''user'' = Some u"
    and "u \<noteq> ''req.user.id''" and "role (user rq) \<noteq> ''admin''"
  shows "deleteBootcamp Bootcamp rq s =
           (Next (ErrorResponse
                    (Text (''User '' @ params_id rq @ '' is not authorized to delete this bootcamp''))
                    (Some 401)), s)"
  using assms by (simp add: deleteBootcamp_def asyncHandler_def deleteBootcamp_body_def)

text \<open>
  Claim C1: on an update or delete request on a bootcamp, the controller answers with a 401
  Error Value and attempts no mutation if and only if the principal is neither the
  bootcamp's owner nor an admin; an owner or admin proceeds to the mutation.
  \<^verbatim>\<open>updateBootcamp\<close> does so (the two lemmas above); \<^verbatim>\<open>deleteBootcamp\<close> does not. Here
  the publisher who owns the stored bootcamp asks to delete it: the handler finds the
  bootcamp, whose \<^verbatim>\<open>user\<close> is the principal, and still hands a 401 Error Value to
  \<^verbatim>\<open>next\<close>; the bootcamp stays in the store and the client gets status 401.
\<close>

theorem deleteBootcamp_refuses_its_owner:
  "user_id (user request) = ''5d7a514b5d2c12c7449be045''
   \<and> ref_string devworks ''user'' = Some ''5d7a514b5d2c12c7449be045''
   \<and> findById sample_model (Bootcamps sample_store) (params_id request) = Inr (Some devworks)
   \<and> deleteBootcamp sample_model request sample_store =
       (Next (ErrorResponse
                (Text ''User 5d713995b721c3bb38c1f5d0 is not authorized to delete this bootcamp'')
                (Some 401)), sample_store)
   \<and> respond (deleteBootcamp sample_model request sample_store) =
       Inr \<lparr>status = 401,
            payload = JObj [(''success'', JBool False),
                            (''error'', JStr ''User 5d713995b721c3bb38c1f5d0 is not authorized to delete this bootcamp'')]\<rparr>"
  by code_simp

section \<open>Duplicate keys (C2)\<close>




section \<open>Missing resources (C3)\<close>

text \<open>
  The bootcamp handlers do what the claim says: an identifier that is well formed and
  names no stored bootcamp is answered with status 404 and a Failure Envelope, and the
  store is as before.
\<close>

lemma missing_bootcamp_answers_404:
  assumes "findById Bootcamp (Bootcamps s) (params_id rq) = Inr None"
  shows "respond (getBootcampById Bootcamp rq s) =
           Inr \<lparr>status = 404,
                payload = JObj [(''success'', JBool False),
                                (''error'', JStr (''Bootcamp not found with the id of '' @ params_id rq))]\<rparr>"
    and "respond (updateBootcamp Bootcamp rq s) = respond (getBootcampById Bootcamp rq s)"
    and "respond (deleteBootcamp Bootcamp rq s) = respond (getBootcampById Bootcamp rq s)"
    and "snd (updateBootcamp Bootcamp rq s) = s" and "snd (deleteBootcamp Bootcamp rq s) = s"
  using assms
  by (simp_all add: respond_def getBootcampById_def updateBootcamp_def deleteBootcamp_def
      asyncHandler_def getBootcampById_body_def updateBootcamp_body_def deleteBootcamp_body_def
      not_found_def errorHandler_def normalise_def failure_def ErrorResponse_def
      status_or_500_def message_or_default_def)

text \<open>
  Claim C3: a fetch, update or delete by an identifier that is well formed and matches no
  stored resource makes the controller build an Error Value with a descriptive message
  and status 404 and hand it to the Error Normalizer, so the response is a Failure
  Envelope with status 404.
  The course handlers do not. \<^verbatim>\<open>getCourse\<close> calls \<^verbatim>\<open>populate\<close> on the \<^verbatim>\<open>null\<close> that
  \<^verbatim>\<open>findById\<close> answered, and the \<^verbatim>\<open>TypeError\<close> is answered with status 500;
  \<^verbatim>\<open>updateCourse\<close> and \<^verbatim>\<open>deleteCourse\<close> build the Error Value without a status, the
  404 being an argument of \<^verbatim>\<open>next\<close>, and it is answered with status 500 as well.
\<close>

theorem missing_course_answers_500:
  "findById sample_model (Courses sample_store) unknown_id = Inr None
   \<and> respond (getCourse sample_model (request\<lparr>params_id := unknown_id\<rparr>) sample_store) =
       Inr \<lparr>status = 500,
            payload = JObj [(''success'', JBool False),
                            (''error'', JStr (''Cannot read property '' @ [CHR 0x27] @ ''populate''
                                              @ [CHR 0x27] @ '' of null''))]\<rparr>
   \<and> respond (updateCourse sample_model (request\<lparr>params_id := unknown_id\<rparr>) sample_store) =
       Inr \<lparr>status = 500,
            payload = JObj [(''success'', JBool False),
                            (''error'', JStr ''No course with the id: 5d713995b721c3bb38c1f5ff'')]\<rparr>
   \<and> respond (deleteCourse sample_model (request\<lparr>params_id := unknown_id\<rparr>) sample_store) =
       Inr \<lparr>status = 500,
            payload = JObj [(''success'', JBool False),
                            (''error'', JStr ''Course not found with the id: 5d713995b721c3bb38c1f5ff'')]\<rparr>"
  by code_simp

section \<open>The envelopes (C4)\<close>

text \<open>
  Claim C4: every response of a controller or of the Error Normalizer is one JSON object of
  the Success Envelope shape \<^verbatim>\<open>{success: true, data: T, count?: integer}\<close> or of the
  Failure Envelope shape \<^verbatim>\<open>{success: false, error: string}\<close>.
  Six handlers write the key as \<^verbatim>\<open>sucess\<close> (\<^verbatim>\<open>createBootcamp\<close>, \<^verbatim>\<open>bootcampPhotoUpload\<close>,
  \<^verbatim>\<open>getCourse\<close>, \<^verbatim>\<open>addCourse\<close>, \<^verbatim>\<open>updateCourse\<close>, \<^verbatim>\<open>deleteCourse\<close>). Here a publisher
  who owns no bootcamp creates one: the body has no \<^verbatim>\<open>success\<close> key and is of neither
  shape.
\<close>

theorem createBootcamp_misspells_success:
  "respond (createBootcamp sample_model (request\<lparr>user := newcomer\<rparr>) sample_store) =
     Inr \<lparr>status = 201,
          payload = JObj [(''sucess'', JBool True),
                          (''data'', JObj [(''_id'', JStr ''5d725a1b7b292f5f8ceff788''),
                                           (''name'', JStr ''ModernTech Bootcamp''),
                                           (''user'', JStr ''5d7a514b5d2c12c7449be046'')])]\<rparr>
   \<and> \<not> success_envelope
         (JObj [(''sucess'', JBool True),
                (''data'', JObj [(''_id'', JStr ''5d725a1b7b292f5f8ceff788''),
                                 (''name'', JStr ''ModernTech Bootcamp''),
                                 (''user'', JStr ''5d7a514b5d2c12c7449be046'')])])
   \<and> \<not> failure_envelope
         (JObj [(''sucess'', JBool True),
                (''data'', JObj [(''_id'', JStr ''5d725a1b7b292f5f8ceff788''),
                                 (''name'', JStr ''ModernTech Bootcamp''),
                                 (''user'', JStr ''5d7a514b5d2c12c7449be046'')])])"
  by code_simp

section \<open>Validation errors (C5)\<close>

text \<open>
  Claim C5: for an error classified as a schema-validation fault, the Error Normalizer
  produces an Error Value whose message is one string made of all the field-level
  validation messages, with status 400, and the Failure Envelope carries that string in
  its \<^verbatim>\<open>error\<close> field.
  The messages are taken in the order of \<^verbatim>\<open>err.errors\<close> and joined by commas. The
  hypothesis that the joined string is not empty says that there is a field-level message
  to show (an empty \<^verbatim>\<open>error.message\<close> is replaced by \<^verbatim>\<open>Server Error\<close>).
\<close>

theorem errorHandler_validation:
  assumes "name err = ''ValidationError''" and "errors err = Some fs"
    and "join '','' (map snd fs) \<noteq> []"
  shows "normalise err = Inr (ErrorResponse (Texts (map snd fs)) (Some 400))
         \<and> message (ErrorResponse (Texts (map snd fs)) (Some 400)) = Some (join '','' (map snd fs))
         \<and> statusCode (ErrorResponse (Texts (map snd fs)) (Some 400)) = Some 400
         \<and> errorHandler err =
             Inr \<lparr>status = 400,
                  payload = JObj [(''success'', JBool False),
                                  (''error'', JStr (join '','' (map snd fs)))]\<rparr>"
  using assms
  by (simp add: errorHandler_def normalise_def failure_def ErrorResponse_def
      status_or_500_def message_or_default_def)

theorem errorHandler_validation_witness:
  "errorHandler \<lparr>name = ''ValidationError'', message = Some ''Bootcamp validation failed'',
                 code = None, statusCode = None,
                 errors = Some [(''name'', ''Please add a name''),
                                (''description'', ''Please add a description'')]\<rparr> =
     Inr \<lparr>status = 400,
          payload = JObj [(''success'', JBool False),
                          (''error'', JStr ''Please add a name,Please add a description'')]\<rparr>"
  using errorHandler_validation
    [of "\<lparr>name = ''ValidationError'', message = Some ''Bootcamp validation failed'',
          code = None, statusCode = None,
          errors = Some [(''name'', ''Please add a name''),
                         (''description'', ''Please add a description'')]\<rparr>"
        "[(''name'', ''Please add a name''), (''description'', ''Please add a description'')]"]
  by simp

section \<open>Creation (C6)\<close>

text \<open>
  Claim C6: a successful create of a bootcamp or a course is answered with a Success
  Envelope with status 201 that contains the created entity.
  \<^verbatim>\<open>createBootcamp\<close> answers 201; \<^verbatim>\<open>addCourse\<close> answers 200. Here a course is added
  to the stored bootcamp: the course is created and the status is 200 (and the key is
  \<^verbatim>\<open>sucess\<close>, as in \<^verbatim>\<open>createBootcamp\<close>).
\<close>

theorem addCourse_answers_200:
  "respond (addCourse sample_model sample_model
              (request\<lparr>params_bootcampId := Some ''5d713995b721c3bb38c1f5d0'',
                       body := [(''title'', JStr ''UI/UX'')]\<rparr>) sample_store) =
     Inr \<lparr>status = 200,
          payload = JObj [(''sucess'', JBool True),
                          (''data'', JObj [(''_id'', JStr ''5d725a1b7b292f5f8ceff788''),
                                           (''title'', JStr ''UI/UX''),
                                           (''bootcamp'', JStr ''5d713995b721c3bb38c1f5d0'')])]\<rparr>"
  by code_simp

section \<open>The photo upload (C7)\<close>

text \<open>
  Four requests that \<^verbatim>\<open>bootcampPhotoUpload\<close> does not answer as a chain of checks that
  each fail with status 400. A photo sent for an identifier that names no bootcamp is
  answered with status 404, as a missing resource is everywhere else. A file whose
  declared media type is \<^verbatim>\<open>imagery/pdf\<close>, which is no image, passes the test
  \<^verbatim>\<open>startsWith('image')\<close>: it is written to the upload directory and the answer is 200. An
  image attached under the field name \<^verbatim>\<open>photo\<close> passes the test \<^verbatim>\<open>!req.files\<close>, then
  \<^verbatim>\<open>req.files.file\<close> is undefined and reading its \<^verbatim>\<open>mimetype\<close> throws: the answer is 500.
  Two files attached under the field name \<^verbatim>\<open>file\<close> make \<^verbatim>\<open>req.files.file\<close> an array,
  and the answer is 500 as well.
\<close>

theorem upload_answers_other_than_400:
  "respond (bootcampPhotoUpload sample_env (\<lambda>target. None) sample_model
              (request\<lparr>params_id := unknown_id, files := Some [(''file'', One pdf)]\<rparr>) sample_store) =
     Inr \<lparr>status = 404,
          payload = JObj [(''success'', JBool False),
                          (''error'', JStr ''Bootcamp not found with the id of 5d713995b721c3bb38c1f5ff'')]\<rparr>
   \<and> respond (bootcampPhotoUpload sample_env (\<lambda>target. None) sample_model
                (request\<lparr>files := Some [(''file'', One \<lparr>file_name = ''notes.pdf'',
                                                         mimetype = ''imagery/pdf'',
                                                         file_size = 2048\<rparr>)]\<rparr>) sample_store) =
       Inr \<lparr>status = 200,
            payload = JObj [(''sucess'', JBool True),
                            (''data'', JStr ''photo_5d713995b721c3bb38c1f5d0.pdf'')]\<rparr>
   \<and> disk (snd (bootcampPhotoUpload sample_env (\<lambda>target. None) sample_model
                   (request\<lparr>files := Some [(''file'', One \<lparr>file_name = ''notes.pdf'',
                                                            mimetype = ''imagery/pdf'',
                                                            file_size = 2048\<rparr>)]\<rparr>) sample_store)) =
       [''./public/uploads/photo_5d713995b721c3bb38c1f5d0.pdf'']
   \<and> map_sum id status
       (respond (bootcampPhotoUpload sample_env (\<lambda>target. None) sample_model
                   (request\<lparr>files := Some [(''photo'', One \<lparr>file_name = ''campus.png'',
                                                             mimetype = ''image/png'',
                                                             file_size = 2048\<rparr>)]\<rparr>) sample_store)) =
       Inr 500
   \<and> map_sum id status
       (respond (bootcampPhotoUpload sample_env (\<lambda>target. None) sample_model
                   (request\<lparr>files := Some [(''file'', Many [pdf, pdf])]\<rparr>) sample_store)) =
       Inr 500"
  (is "?A \<and> ?B \<and> ?C \<and> ?D \<and> ?E")
proof -
  let ?mv = "\<lambda>target::string. None::js_error option"
  let ?notes = "\<lparr>file_name = ''notes.pdf'', mimetype = ''imagery/pdf'', file_size = 2048\<rparr>"
  let ?rq = "request\<lparr>files := Some [(''file'', One ?notes)]\<rparr>"
  have a: ?A by code_simp
  have d: ?D by code_simp
  have e': ?E by code_simp
  have "decimal 1000000 = ''1000000''"
    by (simp add: decimal.simps decimal_digit_def)
  then have "to_number ''1000000'' = Num 1000000"
    using to_number_decimal [of 1000000] clip_in_range [of 1000000]
    by (simp add: overflow_def)
  then have e: "\<not> exceeds (file_size ?notes) (MAX_FILE_UPLOAD sample_env)"
    by (simp add: sample_env_def exceeds_def)
  have f: "findById sample_model (Bootcamps sample_store) (params_id ?rq) = Inr (Some devworks)"
    by code_simp
  have i: "startsWith (mimetype ?notes) ''image''" by code_simp
  have x: "ext (file_name ?notes) = ''.pdf''" by code_simp
  have k: "ref_string devworks ''_id'' = Some ''5d713995b721c3bb38c1f5d0''" by code_simp
  have u: "findByIdAndUpdate sample_model (Bootcamps sample_store) (params_id ?rq)
             [(''photo'', JStr ''photo_5d713995b721c3bb38c1f5d0.pdf'')] =
           Inr ([devworks @ [(''photo'', JStr ''photo_5d713995b721c3bb38c1f5d0.pdf'')]],
                Some (devworks @ [(''photo'', JStr ''photo_5d713995b721c3bb38c1f5d0.pdf'')]))"
    by code_simp
  have r: "bootcampPhotoUpload sample_env ?mv sample_model ?rq sample_store =
             (Sent \<lparr>status = 200,
                    payload = JObj [(''sucess'', JBool True),
                                    (''data'', JStr ''photo_5d713995b721c3bb38c1f5d0.pdf'')]\<rparr>,
              sample_store\<lparr>Bootcamps := [devworks @ [(''photo'',
                                             JStr ''photo_5d713995b721c3bb38c1f5d0.pdf'')]],
                            disk := disk sample_store
                                    @ [''./public/uploads/photo_5d713995b721c3bb38c1f5d0.pdf'']\<rparr>)"
    using e f i x k u
    by (simp add: bootcampPhotoUpload_def asyncHandler_def bootcampPhotoUpload_body_def
        env_text_def sample_env_def Let_def)
  have b: ?B by (simp add: r respond_def)
  have "disk sample_store = []" by (simp add: sample_store_def)
  then have c: ?C by (simp add: r)
  show ?thesis using a b c d e' by (intro conjI)
qed

text \<open>
  Claim C7, with the outcome each check has in the code: the upload controller checks, in
  this order, that the bootcamp exists, that a file is attached, that the declared media
  type of the one file attached under the field name \<^verbatim>\<open>file\<close> begins with \<^verbatim>\<open>image\<close>,
  and that its size does not exceed the configured maximum. The first failing check ends the
  request: a missing bootcamp with a 404 Error Value, each of the other three with a 400
  Error Value; a file whose declared media type does not begin with \<^verbatim>\<open>image\<close> gets status
  400 with the message \<^verbatim>\<open>Please upload an image file.\<close>. In each case the store, and with
  it the upload directory, is as before. A request whose attachments hold no file, or
  several files, under the field name \<^verbatim>\<open>file\<close> is left out.
\<close>

theorem bootcampPhotoUpload_checks:
  assumes "cast_id Bootcamp (params_id rq) = Some k"
  shows "(find (has_id k) (Bootcamps s) = None \<longrightarrow>
            bootcampPhotoUpload env mv Bootcamp rq s =
              (Next (ErrorResponse (Text (''Bootcamp not found with the id of '' @ params_id rq))
                       (Some 404)), s))
       \<and> (find (has_id k) (Bootcamps s) \<noteq> None \<and> files rq = None \<longrightarrow>
            bootcampPhotoUpload env mv Bootcamp rq s =
              (Next (ErrorResponse (Text ''Please upload a file'') (Some 400)), s))
       \<and> (find (has_id k) (Bootcamps s) \<noteq> None \<and> files rq = Some fs
            \<and> map_of fs ''file'' = Some (One file) \<and> \<not> startsWith (mimetype file) ''image'' \<longrightarrow>
            bootcampPhotoUpload env mv Bootcamp rq s =
              (Next (ErrorResponse (Text ''Please upload an image file.'') (Some 400)), s)
            \<and> respond (bootcampPhotoUpload env mv Bootcamp rq s) =
                Inr \<lparr>status = 400,
                     payload = JObj [(''success'', JBool False),
                                     (''error'', JStr ''Please upload an image file.'')]\<rparr>)
       \<and> (find (has_id k) (Bootcamps s) \<noteq> None \<and> files rq = Some fs
            \<and> map_of fs ''file'' = Some (One file) \<and> startsWith (mimetype file) ''image''
            \<and> exceeds (file_size file) (MAX_FILE_UPLOAD env) \<longrightarrow>
            bootcampPhotoUpload env mv Bootcamp rq s =
              (Next (ErrorResponse
                       (Text (''Please upload an image less than '' @ env_text (MAX_FILE_UPLOAD env)))
                       (Some 400)), s))"
  using assms
  by (auto simp add: bootcampPhotoUpload_def bootcampPhotoUpload_body_def findById_def
      not_found_def handler_defs)

theorem bootcampPhotoUpload_checks_witness:
  "bootcampPhotoUpload sample_env (\<lambda>target. None) sample_model
     (request\<lparr>params_id := unknown_id, files := Some [(''file'', One pdf)]\<rparr>) sample_store =
     (Next (ErrorResponse (Text (''Bootcamp not found with the id of '' @ unknown_id)) (Some 404)),
      sample_store)
   \<and> bootcampPhotoUpload sample_env (\<lambda>target. None) sample_model request sample_store =
       (Next (ErrorResponse (Text ''Please upload a file'') (Some 400)), sample_store)
   \<and> bootcampPhotoUpload sample_env (\<lambda>target. None) sample_model
       (request\<lparr>files := Some [(''file'', One pdf)]\<rparr>) sample_store =
       (Next (ErrorResponse (Text ''Please upload an image file.'') (Some 400)), sample_store)
   \<and> bootcampPhotoUpload sample_env (\<lambda>target. None) sample_model
       (request\<lparr>files := Some [(''file'', One \<lparr>file_name = ''campus.png'', mimetype = ''image/png'',
                                                file_size = 2000000\<rparr>)]\<rparr>) sample_store =
       (Next (ErrorResponse (Text ''Please upload an image less than 1000000'') (Some 400)),
        sample_store)"
  (is "?A \<and> ?B \<and> ?C \<and> ?D")
proof -
  let ?mv = "\<lambda>target::string. None::js_error option"
  let ?big = "\<lparr>file_name = ''campus.png'', mimetype = ''image/png'', file_size = 2000000\<rparr>"
  let ?r1 = "request\<lparr>params_id := unknown_id, files := Some [(''file'', One pdf)]\<rparr>"
  let ?r3 = "request\<lparr>files := Some [(''file'', One pdf)]\<rparr>"
  let ?r4 = "request\<lparr>files := Some [(''file'', One ?big)]\<rparr>"
  have c1: "cast_id sample_model (params_id ?r1) = Some unknown_id" by code_simp
  have m1: "find (has_id unknown_id) (Bootcamps sample_store) = None" by code_simp
  have c2: "cast_id sample_model (params_id request) = Some ''5d713995b721c3bb38c1f5d0''"
    by code_simp
  have m2: "find (has_id ''5d713995b721c3bb38c1f5d0'') (Bootcamps sample_store) \<noteq> None"
    by code_simp
  have f2: "files request = None" by code_simp
  have c3: "cast_id sample_model (params_id ?r3) = Some ''5d713995b721c3bb38c1f5d0''"
    using c2 by simp
  have i3: "\<not> startsWith (mimetype pdf) ''image''" by code_simp
  have c4: "cast_id sample_model (params_id ?r4) = Some ''5d713995b721c3bb38c1f5d0''"
    using c2 by simp
  have i4: "startsWith (mimetype ?big) ''image''" by (simp add: startsWith_def)
  have "decimal 1000000 = ''1000000''"
    by (simp add: decimal.simps decimal_digit_def)
  then have "to_number ''1000000'' = Num 1000000"
    using to_number_decimal [of 1000000] clip_in_range [of 1000000]
    by (simp add: overflow_def)
  then have e4: "exceeds (file_size ?big) (MAX_FILE_UPLOAD sample_env)"
    by (simp add: sample_env_def exceeds_def)
  have t4: "env_text (MAX_FILE_UPLOAD sample_env) = ''1000000''" by code_simp
  have a: ?A
    using bootcampPhotoUpload_checks [OF c1, of sample_store sample_env ?mv "[]" pdf] m1
    by simp
  have b: ?B
    using bootcampPhotoUpload_checks [OF c2, of sample_store sample_env ?mv "[]" pdf] m2 f2
    by simp
  have c: ?C
    using bootcampPhotoUpload_checks [OF c3, of sample_store sample_env ?mv "[(''file'', One pdf)]" pdf]
      m2 i3
    by simp
  have d: ?D
    using bootcampPhotoUpload_checks
      [OF c4, of sample_store sample_env ?mv "[(''file'', One ?big)]" ?big] m2 i4 e4 t4
    by simp
  show ?thesis
    using a b c d by (intro conjI)
qed

text \<open>When every check passes and \<^verbatim>\<open>file.mv\<close> succeeds, the file is written under the
  name made of the bootcamp's identifier and the extension of the original name.\<close>

lemma bootcampPhotoUpload_writes:
  assumes "findById Bootcamp (Bootcamps s) (params_id rq) = Inr (Some bootcamp)"
    and "files rq = Some fs" and "map_of fs ''file'' = Some (One file)"
    and "startsWith (mimetype file) ''image''"
    and "\<not> exceeds (file_size file) (MAX_FILE_UPLOAD env)"
    and "nm = ''photo_'' @ env_text (ref_string bootcamp ''_id'') @ ext (file_name file)"
    and "mv (env_text (FILE_UPLOAD_PATH env) @ ''/'' @ nm) = None"
  shows "disk (snd (bootcampPhotoUpload env mv Bootcamp rq s)) =
           disk s @ [env_text (FILE_UPLOAD_PATH env) @ ''/'' @ nm]"
  using assms
  by (simp add: bootcampPhotoUpload_def asyncHandler_def bootcampPhotoUpload_body_def Let_def
      split: sum.splits prod.splits)

section \<open>Malformed identifiers (C8)\<close>

text \<open>
  Claim C8: for an error classified as a malformed-identifier fault (one named
  \<^verbatim>\<open>CastError\<close>, and not carrying the duplicate-key code), the Error Normalizer produces
  the Error Value with message \<^verbatim>\<open>Resource not found\<close> and status 404, so every by-id
  endpoint given a malformed identifier answers with status 404 and a Failure Envelope.
\<close>

theorem malformed_identifier_answers_404:
  "(name err = ''CastError'' \<and> code err \<noteq> Some 11000 \<longrightarrow>
      normalise err = Inr (ErrorResponse (Text ''Resource not found'') (Some 404))
      \<and> errorHandler err = Inr (failure (ErrorResponse (Text ''Resource not found'') (Some 404))))
   \<and> failure (ErrorResponse (Text ''Resource not found'') (Some 404)) =
       \<lparr>status = 404,
        payload = JObj [(''success'', JBool False), (''error'', JStr ''Resource not found'')]\<rparr>
   \<and> failure_envelope (payload (failure (ErrorResponse (Text ''Resource not found'') (Some 404))))
   \<and> (cast_id Bootcamp (params_id rq) = None \<longrightarrow>
        respond (getBootcampById Bootcamp rq s) =
          Inr (failure (ErrorResponse (Text ''Resource not found'') (Some 404)))
        \<and> respond (updateBootcamp Bootcamp rq s) =
            Inr (failure (ErrorResponse (Text ''Resource not found'') (Some 404)))
        \<and> respond (deleteBootcamp Bootcamp rq s) =
            Inr (failure (ErrorResponse (Text ''Resource not found'') (Some 404)))
        \<and> respond (bootcampPhotoUpload env mv Bootcamp rq s) =
            Inr (failure (ErrorResponse (Text ''Resource not found'') (Some 404))))
   \<and> (cast_id Course (params_id rq) = None \<longrightarrow>
        respond (getCourse Course rq s) =
          Inr (failure (ErrorResponse (Text ''Resource not found'') (Some 404)))
        \<and> respond (updateCourse Course rq s) =
            Inr (failure (ErrorResponse (Text ''Resource not found'') (Some 404)))
        \<and> respond (deleteCourse Course rq s) =
            Inr (failure (ErrorResponse (Text ''Resource not found'') (Some 404))))"
  (is "?A \<and> ?B \<and> ?C \<and> ?D \<and> ?E")
proof -
  have n: "normalise (CastError v) = Inr (ErrorResponse (Text ''Resource not found'') (Some 404))"
    for v by (simp add: normalise_def CastError_def)
  have h: "errorHandler (CastError v) =
             Inr (failure (ErrorResponse (Text ''Resource not found'') (Some 404)))" for v
    by (simp add: errorHandler_def n)
  have a: ?A
    by (simp add: errorHandler_def normalise_def)
  have b: ?B
    by (simp add: failure_def ErrorResponse_def status_or_500_def message_or_default_def)
  have c: ?C
    by (simp add: b failure_envelope_def)
  have d: ?D
    by (simp add: respond_def asyncHandler_def findById_def h
        getBootcampById_def getBootcampById_body_def updateBootcamp_def updateBootcamp_body_def
        deleteBootcamp_def deleteBootcamp_body_def bootcampPhotoUpload_def
        bootcampPhotoUpload_body_def)
  have e: ?E
    by (simp add: respond_def asyncHandler_def findById_def h
        getCourse_def getCourse_body_def updateCourse_def updateCourse_body_def
        deleteCourse_def deleteCourse_body_def)
  show ?thesis
    using a b c d e by (intro conjI)
qed

theorem malformed_identifier_answers_404_witness:
  "errorHandler (CastError ''abc'') =
     Inr \<lparr>status = 404,
          payload = JObj [(''success'', JBool False), (''error'', JStr ''Resource not found'')]\<rparr>
   \<and> respond (getBootcampById sample_model (request\<lparr>params_id := ''abc''\<rparr>) sample_store) =
       Inr \<lparr>status = 404,
            payload = JObj [(''success'', JBool False), (''error'', JStr ''Resource not found'')]\<rparr>
   \<and> respond (getCourse sample_model (request\<lparr>params_id := ''abc''\<rparr>) sample_store) =
       Inr \<lparr>status = 404,
            payload = JObj [(''success'', JBool False), (''error'', JStr ''Resource not found'')]\<rparr>"
proof -
  let ?rq = "request\<lparr>params_id := ''abc''\<rparr>"
  have n: "name (CastError ''abc'') = ''CastError'' \<and> code (CastError ''abc'') \<noteq> Some 11000"
    by (simp add: CastError_def)
  have c: "cast_id sample_model (params_id ?rq) = None"
    by (simp add: sample_model_def)
  show ?thesis
    using malformed_identifier_answers_404
      [of "CastError ''abc''" sample_model ?rq sample_store sample_env "\<lambda>target. None" sample_model]
      n c
    by simp
qed

section \<open>Bootcamps within a radius (C9)\<close>

text \<open>
  Claim C9: the bootcamps-in-radius controller resolves the postal code to a latitude and
  a longitude through the geocoder, takes as radius the given distance divided by 6963,
  asks the storage layer for the bootcamps within that radius of (longitude, latitude), and
  answers with a Success Envelope whose \<^verbatim>\<open>count\<close> is the length of the list it got.
  The first part is for every distance that converts to a finite number; the second pins
  the conversion: for the decimal numeral of \<open>n\<close> miles the radius of the query is
  \<open>n / 6963\<close>. The division is over the reals.
\<close>

theorem getBootcampsInRadius_delegates:
  assumes "geocode (params_zipcode rq) = Inr (l # ls)"
  shows "(to_number (params_distance rq) = Num distance
          \<and> geoWithin Bootcamp (Bootcamps s) (longitude l, latitude l) (Num (distance / 6963)) =
              Inr bootcamps \<longrightarrow>
            getBootcampsInRadius geocode Bootcamp rq s =
              (Sent \<lparr>status = 200,
                     payload = JObj [(''success'', JBool True),
                                     (''count'', JNum (int (length bootcamps))),
                                     (''data'', JArr (map JObj bootcamps))]\<rparr>, s)
            \<and> success_envelope
                (JObj [(''success'', JBool True),
                       (''count'', JNum (int (length bootcamps))),
                       (''data'', JArr (map JObj bootcamps))]))
       \<and> (params_distance rq = decimal n \<and> real n < overflow
          \<and> geoWithin Bootcamp (Bootcamps s) (longitude l, latitude l) (Num (real n / 6963)) =
              Inr bootcamps \<longrightarrow>
            getBootcampsInRadius geocode Bootcamp rq s =
              (Sent \<lparr>status = 200,
                     payload = JObj [(''success'', JBool True),
                                     (''count'', JNum (int (length bootcamps))),
                                     (''data'', JArr (map JObj bootcamps))]\<rparr>, s))"
    (is "?A \<and> ?B")
proof -
  have a: ?A
    using assms
    by (simp add: getBootcampsInRadius_def asyncHandler_def getBootcampsInRadius_body_def
        quotient_def success_envelope_def)
  have b: ?B
  proof (intro impI, elim conjE)
    assume d: "params_distance rq = decimal n" and r: "real n < overflow"
      and q: "geoWithin Bootcamp (Bootcamps s) (longitude l, latitude l) (Num (real n / 6963)) =
                Inr bootcamps"
    have "to_number (params_distance rq) = Num (real n)"
      using r by (simp add: d to_number_decimal clip_in_range)
    with a q show "getBootcampsInRadius geocode Bootcamp rq s =
              (Sent \<lparr>status = 200,
                     payload = JObj [(''success'', JBool True),
                                     (''count'', JNum (int (length bootcamps))),
                                     (''data'', JArr (map JObj bootcamps))]\<rparr>, s)"
      using assms
      by (simp add: getBootcampsInRadius_def asyncHandler_def getBootcampsInRadius_body_def
          quotient_def)
  qed
  show ?thesis using a b by (intro conjI)
qed

text \<open>Ten miles around \<^verbatim>\<open>90210\<close> hold one of the two sample bootcamps, two hundred miles
  hold both.\<close>

theorem getBootcampsInRadius_delegates_witness:
  "getBootcampsInRadius sample_geocode sample_model request coast_store =
     (Sent \<lparr>status = 200,
            payload = JObj [(''success'', JBool True),
                            (''count'', JNum 1),
                            (''data'', JArr [JObj hollywood])]\<rparr>, coast_store)
   \<and> getBootcampsInRadius sample_geocode sample_model
       (request\<lparr>params_distance := ''200''\<rparr>) coast_store =
       (Sent \<lparr>status = 200,
              payload = JObj [(''success'', JBool True),
                              (''count'', JNum 2),
                              (''data'', JArr [JObj hollywood, JObj bakersfield])]\<rparr>, coast_store)"
  (is "?A \<and> ?B")
proof -
  let ?l = "\<lparr>latitude = 34, longitude = - 118\<rparr>"
  let ?far = "request\<lparr>params_distance := ''200''\<rparr>"
  have g: "sample_geocode (params_zipcode request) = Inr (?l # [])"
    by (simp add: sample_geocode_def request_def)
  have g': "sample_geocode (params_zipcode ?far) = Inr (?l # [])"
    by (simp add: sample_geocode_def request_def)
  have d: "params_distance request = decimal 10"
    by (simp add: request_def decimal.simps decimal_digit_def)
  have d': "params_distance ?far = decimal 200"
    by (simp add: decimal.simps decimal_digit_def)
  have n: "to_number (params_distance request) = Num 10"
    using to_number_decimal [of 10] clip_in_range [of 10] by (simp add: d overflow_def)
  have o: "real 10 < overflow" "real 200 < overflow"
    by (simp_all add: overflow_def)
  have w: "planar_within (- 118, 34) r hollywood = (0 \<le> (57 * r)\<^sup>2)" for r
    by (simp add: planar_within_def hollywood_def)
  have v: "planar_within (- 118, 34) r bakersfield = (2 \<le> (57 * r)\<^sup>2)" for r
    by (simp add: planar_within_def bakersfield_def)
  have q: "geoWithin sample_model (Bootcamps coast_store) (longitude ?l, latitude ?l)
             (Num (real 10 / 6963)) = Inr [hollywood]"
    by (simp add: sample_model_def coast_store_def w v power2_eq_square)
  have q': "geoWithin sample_model (Bootcamps coast_store) (longitude ?l, latitude ?l)
              (Num (real 200 / 6963)) = Inr [hollywood, bakersfield]"
    by (simp add: sample_model_def coast_store_def w v power2_eq_square)
  have a: ?A
    using getBootcampsInRadius_delegates
      [where geocode = sample_geocode and rq = request and ls = "[]" and l = ?l
         and distance = 10 and n = 10 and Bootcamp = sample_model and s = coast_store
         and bootcamps = "[hollywood]"]
      g d n o q
    by simp
  have b: ?B
    using getBootcampsInRadius_delegates
      [where geocode = sample_geocode and rq = ?far and ls = "[]" and l = ?l
         and distance = 200 and n = 200 and Bootcamp = sample_model and s = coast_store
         and bootcamps = "[hollywood, bakersfield]"]
      g' d' o q'
    by simp
  show ?thesis using a b by (intro conjI)
qed

section \<open>One bootcamp per publisher (C10)\<close>

text \<open>
  Claim C10: a creation request by a principal who is not an admin and already has a
  bootcamp is answered with a 400 Error Value saying that the user has already published
  a bootcamp, and the create is not attempted (the store is as before); so
  \<^verbatim>\<open>createBootcamp\<close> never takes a principal who is not an admin from at most one bootcamp
  to more than one.
\<close>

theorem createBootcamp_one_per_publisher:
  assumes "cast_id Bootcamp (user_id (user rq)) = Some k"
    and "role (user rq) \<noteq> ''admin''"
  shows "(find (refers ''user'' k) (Bootcamps s) \<noteq> None \<longrightarrow>
            createBootcamp Bootcamp rq s =
              (Next (ErrorResponse
                       (Text (''The user with ID '' @ user_id (user rq)
                              @ '' has already published a bootcamp'')) (Some 400)), s)
            \<and> respond (createBootcamp Bootcamp rq s) =
                Inr \<lparr>status = 400,
                     payload = JObj [(''success'', JBool False),
                                     (''error'', JStr (''The user with ID '' @ user_id (user rq)
                                                       @ '' has already published a bootcamp''))]\<rparr>)
       \<and> (length (filter (refers ''user'' k) (Bootcamps s)) \<le> 1 \<longrightarrow>
            length (filter (refers ''user'' k) (Bootcamps (snd (createBootcamp Bootcamp rq s)))) \<le> 1)"
    (is "?A \<and> ?B")
proof -
  have a: ?A
    using assms
    by (auto simp add: createBootcamp_def createBootcamp_body_def findOne_def respond_def
        asyncHandler_def errorHandler_def normalise_def failure_def ErrorResponse_def
        status_or_500_def message_or_default_def)
  have b: ?B
  proof (cases "find (refers ''user'' k) (Bootcamps s)")
    case None
    then have "filter (refers ''user'' k) (Bootcamps s) = []"
      by (rule find_None_filter)
    with None assms show ?thesis
      by (auto simp add: createBootcamp_def createBootcamp_body_def findOne_def create_def
          asyncHandler_def split: sum.splits)
  next
    case (Some b)
    with assms show ?thesis
      by (simp add: createBootcamp_def createBootcamp_body_def findOne_def asyncHandler_def)
  qed
  show ?thesis using a b by (intro conjI)
qed

theorem createBootcamp_one_per_publisher_witness:
  "createBootcamp sample_model request sample_store =
     (Next (ErrorResponse
              (Text ''The user with ID 5d7a514b5d2c12c7449be045 has already published a bootcamp'')
              (Some 400)), sample_store)
   \<and> length (filter (refers ''user'' ''5d7a514b5d2c12c7449be045'')
               (Bootcamps (snd (createBootcamp sample_model request sample_store)))) \<le> 1"
proof -
  have u: "user_id (user request) = ''5d7a514b5d2c12c7449be045''" by code_simp
  have c: "cast_id sample_model (user_id (user request)) = Some ''5d7a514b5d2c12c7449be045''"
    by code_simp
  have r: "role (user request) \<noteq> ''admin''" by code_simp
  have f: "find (refers ''user'' ''5d7a514b5d2c12c7449be045'') (Bootcamps sample_store) \<noteq> None"
    by code_simp
  have l: "length (filter (refers ''user'' ''5d7a514b5d2c12c7449be045'') (Bootcamps sample_store)) \<le> 1"
    by code_simp
  show ?thesis
    using createBootcamp_one_per_publisher [OF c r, of sample_store] u f l by simp
qed

end
